theory Spec2Isabelle
  imports Main "HOL-Library.Word"
begin

section \<open>Data model of the domain registration resource\<close>

text \<open>
  The development embeds the functions \<open>findHostedZoneID\<close>,
  \<open>deleteRegistrarHostedZone\<close>, \<open>Create\<close>, \<open>Read\<close> and \<open>Delete\<close> of the resource
  \<open>DomainRegistrationResource\<close>. The two SDK clients are the only effects of these
  functions: every remote operation is a function of the environment, applied to the
  world as it is when the call is made, and every call is appended to the history of the
  world together with its response. Go pointers to strings are \<open>string option\<close>
  (\<open>None\<close> is \<open>nil\<close>), Go errors are the text of the error.
\<close>

type_synonym err = string

text \<open>
  Modelled from the spec: the enumeration \<open>types.OperationStatus\<close> of the SDK is not
  part of the repository; the spec lists its values. \<open>Create\<close> compares a status with
  \<open>SUCCESSFUL\<close>, \<open>FAILED\<close> and \<open>ERROR\<close> only.
\<close>

datatype OperationStatus = PENDING | IN_PROGRESS | SUCCESSFUL | FAILED | ERROR

record OperationDetail =
  odStatus :: OperationStatus
  odMessage :: "string option"

text \<open>
  The fields of \<open>RegisterDomainInput\<close> that \<open>Create\<close> fills from the plan. The three
  contact records are copied field by field by \<open>contactModelToAWS\<close> and take no part in
  any decision of the functions embedded here; they are left out.
\<close>

record RegisterDomainInput =
  rdDomainName :: string
  rdDurationInYears :: "32 word"
  rdAutoRenew :: bool
  rdPrivacyProtectAdminContact :: bool
  rdPrivacyProtectRegistrantContact :: bool
  rdPrivacyProtectTechContact :: bool

text \<open>
  The fields of \<open>GetDomainDetailOutput\<close> that are read. A timestamp is kept as its
  RFC 3339 rendering, which is all the resource stores of it.
\<close>

record DomainDetail =
  ddAutoRenew :: "bool option"
  ddExpirationDate :: "string option"
  ddCreationDate :: "string option"
  ddStatusList :: "string list"
  ddNameservers :: "string option list"

record HostedZoneConfig =
  hzComment :: "string option"
  hzPrivateZone :: bool

record HostedZone =
  hzName :: "string option"
  hzId :: "string option"
  hzConfig :: "HostedZoneConfig option"

record ResourceRecordSet =
  rrName :: "string option"
  rrType :: string

text \<open>One remote call, or one sleep, with what it returned.\<close>

datatype event =
    EvRegisterDomain RegisterDomainInput "err + string"
  | EvGetOperationDetail string "err + OperationDetail"
  | EvUpdateDomainNameservers string "string list" "err option"
  | EvGetDomainDetail string "err + DomainDetail"
  | EvDeleteDomain string "err option"
  | EvListHostedZonesByName string int "err + HostedZone list"
  | EvListResourceRecordSets string "err + ResourceRecordSet list"
  | EvDeleteHostedZone string "err option"
  | EvSleep int

text \<open>
  The world: the wall clock in nanoseconds and the calls made so far, oldest first.
\<close>

record world =
  clock :: int
  history :: "event list"

text \<open>
  The environment: what each remote operation answers in a given world, and how much
  time (in nanoseconds) passes during the next call, or beyond the requested duration
  of the next sleep.
\<close>

record env =
  RegisterDomain_r :: "world \<Rightarrow> RegisterDomainInput \<Rightarrow> err + string"
  GetOperationDetail_r :: "world \<Rightarrow> string \<Rightarrow> err + OperationDetail"
  UpdateDomainNameservers_r :: "world \<Rightarrow> string \<Rightarrow> string list \<Rightarrow> err option"
  GetDomainDetail_r :: "world \<Rightarrow> string \<Rightarrow> err + DomainDetail"
  DeleteDomain_r :: "world \<Rightarrow> string \<Rightarrow> err option"
  ListHostedZonesByName_r :: "world \<Rightarrow> string \<Rightarrow> int \<Rightarrow> err + HostedZone list"
  ListResourceRecordSets_r :: "world \<Rightarrow> string \<Rightarrow> err + ResourceRecordSet list"
  DeleteHostedZone_r :: "world \<Rightarrow> string \<Rightarrow> err option"
  Delay :: "world \<Rightarrow> nat"

text \<open>The resource model (\<open>DomainRegistrationResourceModel\<close>), contacts left out.\<close>

record DomainRegistrationResourceModel =
  ID :: "string option"
  DomainName :: string
  DurationYears :: "64 word"
  AutoRenew :: bool
  AdminPrivacy :: bool
  RegistrantPrivacy :: bool
  TechPrivacy :: bool
  Nameservers :: "string list"
  AllowDelete :: bool
  DeleteHostedZone :: bool
  Status :: "string option"
  ExpirationDate :: "string option"
  CreationDate :: "string option"
  RegistrationTimeout :: "64 word"
  HostedZoneID :: "string option"

section \<open>Remote calls\<close>

definition record_call :: "env \<Rightarrow> event \<Rightarrow> world \<Rightarrow> world" where
  "record_call e ev w =
     w\<lparr>clock := clock w + int (Delay e w), history := history w @ [ev]\<rparr>"

definition callRegisterDomain ::
  "env \<Rightarrow> RegisterDomainInput \<Rightarrow> world \<Rightarrow> (err + string) \<times> world" where
  "callRegisterDomain e inp w =
     (let r = RegisterDomain_r e w inp in (r, record_call e (EvRegisterDomain inp r) w))"

definition callGetOperationDetail ::
  "env \<Rightarrow> string \<Rightarrow> world \<Rightarrow> (err + OperationDetail) \<times> world" where
  "callGetOperationDetail e opid w =
     (let r = GetOperationDetail_r e w opid in (r, record_call e (EvGetOperationDetail opid r) w))"

definition callUpdateDomainNameservers ::
  "env \<Rightarrow> string \<Rightarrow> string list \<Rightarrow> world \<Rightarrow> err option \<times> world" where
  "callUpdateDomainNameservers e d ns w =
     (let r = UpdateDomainNameservers_r e w d ns
      in (r, record_call e (EvUpdateDomainNameservers d ns r) w))"

definition callGetDomainDetail ::
  "env \<Rightarrow> string \<Rightarrow> world \<Rightarrow> (err + DomainDetail) \<times> world" where
  "callGetDomainDetail e d w =
     (let r = GetDomainDetail_r e w d in (r, record_call e (EvGetDomainDetail d r) w))"

definition callDeleteDomain :: "env \<Rightarrow> string \<Rightarrow> world \<Rightarrow> err option \<times> world" where
  "callDeleteDomain e d w =
     (let r = DeleteDomain_r e w d in (r, record_call e (EvDeleteDomain d r) w))"

definition callListHostedZonesByName ::
  "env \<Rightarrow> string \<Rightarrow> int \<Rightarrow> world \<Rightarrow> (err + HostedZone list) \<times> world" where
  "callListHostedZonesByName e d n w =
     (let r = ListHostedZonesByName_r e w d n
      in (r, record_call e (EvListHostedZonesByName d n r) w))"

definition callListResourceRecordSets ::
  "env \<Rightarrow> string \<Rightarrow> world \<Rightarrow> (err + ResourceRecordSet list) \<times> world" where
  "callListResourceRecordSets e z w =
     (let r = ListResourceRecordSets_r e w z
      in (r, record_call e (EvListResourceRecordSets z r) w))"

definition callDeleteHostedZone :: "env \<Rightarrow> string \<Rightarrow> world \<Rightarrow> err option \<times> world" where
  "callDeleteHostedZone e z w =
     (let r = DeleteHostedZone_r e w z in (r, record_call e (EvDeleteHostedZone z r) w))"

text \<open>\<open>time.Sleep d\<close> pauses for at least \<open>d\<close>.\<close>

definition Sleep :: "env \<Rightarrow> int \<Rightarrow> world \<Rightarrow> world" where
  "Sleep e d w =
     w\<lparr>clock := clock w + d + int (Delay e w), history := history w @ [EvSleep d]\<rparr>"

section \<open>String helpers of the Go library\<close>

definition ToString :: "string option \<Rightarrow> string" where
  "ToString p = (case p of None \<Rightarrow> [] | Some s \<Rightarrow> s)"

definition TrimSuffix :: "string \<Rightarrow> string \<Rightarrow> string" where
  "TrimSuffix s suf =
     (if length suf \<le> length s \<and> drop (length s - length suf) s = suf
      then take (length s - length suf) s else s)"

definition TrimPrefix :: "string \<Rightarrow> string \<Rightarrow> string" where
  "TrimPrefix s pre =
     (if take (length pre) s = pre then drop (length pre) s else s)"

section \<open>Hosted zone lookup and guarded deletion\<close>

datatype ZoneError =
    FailedToListHostedZones err
  | HostedZoneNotFound string
  | HostedZoneIsPrivate
  | CommentMismatch string
  | FailedToListRecords err
  | HasCustomRecord string string
  | FailedToDeleteHostedZone err

definition registrarComment :: string where
  "registrarComment = ''HostedZone created by Route53 Registrar''"

text \<open>The loop of \<open>findHostedZoneID\<close> over the zones of the response.\<close>

fun findHostedZoneID_loop :: "string \<Rightarrow> HostedZone list \<Rightarrow> ZoneError + string" where
  "findHostedZoneID_loop domainName [] = Inl (HostedZoneNotFound domainName)"
| "findHostedZoneID_loop domainName (zone # zones) =
     (let zoneName = TrimSuffix (ToString (hzName zone)) ''.''
      in if zoneName = domainName
         then Inr (TrimPrefix (ToString (hzId zone)) ''/hostedzone/'')
         else findHostedZoneID_loop domainName zones)"

definition findHostedZoneID :: "env \<Rightarrow> string \<Rightarrow> world \<Rightarrow> (ZoneError + string) \<times> world" where
  "findHostedZoneID e domainName w =
     (case callListHostedZonesByName e domainName 1 w of
        (Inl er, w1) \<Rightarrow> (Inl (FailedToListHostedZones er), w1)
      | (Inr zones, w1) \<Rightarrow> (findHostedZoneID_loop domainName zones, w1))"

text \<open>The first record of a listing whose type is neither NS nor SOA.\<close>

fun firstCustomRecord :: "ResourceRecordSet list \<Rightarrow> ResourceRecordSet option" where
  "firstCustomRecord [] = None"
| "firstCustomRecord (r # rs) =
     (if rrType r \<noteq> ''NS'' \<and> rrType r \<noteq> ''SOA'' then Some r else firstCustomRecord rs)"

text \<open>
  The body of the loop of \<open>deleteRegistrarHostedZone\<close> for a zone whose name matches:
  the three safety checks in the order of the source, then the delete call.
\<close>

definition deleteMatchedZone ::
  "env \<Rightarrow> HostedZone \<Rightarrow> world \<Rightarrow> ZoneError option \<times> world" where
  "deleteMatchedZone e zone w =
     (let zoneID = ToString (hzId zone)
      in if (case hzConfig zone of None \<Rightarrow> False | Some c \<Rightarrow> hzPrivateZone c)
         then (Some HostedZoneIsPrivate, w)
         else
           let comment = (case hzConfig zone of None \<Rightarrow> []
                          | Some c \<Rightarrow> (case hzComment c of None \<Rightarrow> [] | Some s \<Rightarrow> s))
           in if comment \<noteq> registrarComment
              then (Some (CommentMismatch comment), w)
              else
                (case callListResourceRecordSets e zoneID w of
                   (Inl er, w1) \<Rightarrow> (Some (FailedToListRecords er), w1)
                 | (Inr records, w1) \<Rightarrow>
                     (case firstCustomRecord records of
                        Some r \<Rightarrow> (Some (HasCustomRecord (ToString (rrName r)) (rrType r)), w1)
                      | None \<Rightarrow>
                          (case callDeleteHostedZone e zoneID w1 of
                             (Some er, w2) \<Rightarrow> (Some (FailedToDeleteHostedZone er), w2)
                           | (None, w2) \<Rightarrow> (None, w2)))))"

fun deleteRegistrarHostedZone_loop ::
  "env \<Rightarrow> string \<Rightarrow> HostedZone list \<Rightarrow> world \<Rightarrow> ZoneError option \<times> world" where
  "deleteRegistrarHostedZone_loop e domainName [] w = (Some (HostedZoneNotFound domainName), w)"
| "deleteRegistrarHostedZone_loop e domainName (zone # zones) w =
     (let zoneName = TrimSuffix (ToString (hzName zone)) ''.''
      in if zoneName \<noteq> domainName
         then deleteRegistrarHostedZone_loop e domainName zones w
         else deleteMatchedZone e zone w)"

definition deleteRegistrarHostedZone ::
  "env \<Rightarrow> string \<Rightarrow> world \<Rightarrow> ZoneError option \<times> world" where
  "deleteRegistrarHostedZone e domainName w =
     (case callListHostedZonesByName e domainName 1 w of
        (Inl er, w1) \<Rightarrow> (Some (FailedToListHostedZones er), w1)
      | (Inr zones, w1) \<Rightarrow> deleteRegistrarHostedZone_loop e domainName zones w1)"

section \<open>Create\<close>

text \<open>The error diagnostics \<open>Create\<close> can add, named after their summaries.\<close>

datatype CreateError =
    ErrorRegisteringDomain err
  | ErrorCheckingRegistrationStatus err
  | DomainRegistrationFailed string
  | DomainRegistrationError string
  | ErrorUpdatingNameservers err
  | ErrorReadingDomainDetails err

datatype CreateResult = Failed CreateError | Done DomainRegistrationResourceModel

text \<open>
  The polling loop \<open>for time.Now().Before(deadline)\<close>. The result is \<open>Some\<close> of the
  diagnostic when the loop body returns from \<open>Create\<close>, and \<open>None\<close> when the loop is
  left, by \<open>break\<close> or because the condition is false: the source goes on to the same
  statement in both cases.
\<close>

function pollLoop :: "env \<Rightarrow> string \<Rightarrow> int \<Rightarrow> world \<Rightarrow> CreateError option \<times> world" where
  "pollLoop e opid deadline w =
     (if clock w < deadline then
        (case callGetOperationDetail e opid w of
           (Inl er, w1) \<Rightarrow> (Some (ErrorCheckingRegistrationStatus er), w1)
         | (Inr opDetail, w1) \<Rightarrow>
             if odStatus opDetail = SUCCESSFUL then (None, w1)
             else if odStatus opDetail = FAILED
               then (Some (DomainRegistrationFailed (ToString (odMessage opDetail))), w1)
             else if odStatus opDetail = ERROR
               then (Some (DomainRegistrationError (ToString (odMessage opDetail))), w1)
             else pollLoop e opid deadline (Sleep e 10000000000 w1))
      else (None, w))"
  by pat_completeness auto
termination
  by (relation "measure (\<lambda>(e, opid, deadline, w). nat (deadline - clock w))")
     (auto simp: callGetOperationDetail_def record_call_def Sleep_def Let_def)

declare pollLoop.simps [simp del]

text \<open>The hosted-zone part of \<open>Create\<close>: it sets \<open>HostedZoneID\<close> and never fails.\<close>

definition Create_hostedZone ::
  "env \<Rightarrow> DomainRegistrationResourceModel \<Rightarrow> world \<Rightarrow> DomainRegistrationResourceModel \<times> world" where
  "Create_hostedZone e data w =
     (let domainName = DomainName data
      in if DeleteHostedZone data then
           (case deleteRegistrarHostedZone e domainName w of
              (Some er, w1) \<Rightarrow>
                (case findHostedZoneID e domainName w1 of
                   (Inr hostedZoneID, w2) \<Rightarrow> (data\<lparr>HostedZoneID := Some hostedZoneID\<rparr>, w2)
                 | (Inl lookupErr, w2) \<Rightarrow> (data\<lparr>HostedZoneID := None\<rparr>, w2))
            | (None, w1) \<Rightarrow> (data\<lparr>HostedZoneID := None\<rparr>, w1))
         else
           (case findHostedZoneID e domainName w of
              (Inl er, w1) \<Rightarrow> (data\<lparr>HostedZoneID := None\<rparr>, w1)
            | (Inr hostedZoneID, w1) \<Rightarrow> (data\<lparr>HostedZoneID := Some hostedZoneID\<rparr>, w1)))"

text \<open>The computed fields taken from the domain detail.\<close>

definition setComputed ::
  "DomainDetail \<Rightarrow> DomainRegistrationResourceModel \<Rightarrow> DomainRegistrationResourceModel" where
  "setComputed domainDetail data =
     (let d1 = data\<lparr>ID := Some (DomainName data)\<rparr>;
          d2 = (case ddExpirationDate domainDetail of None \<Rightarrow> d1
                | Some t \<Rightarrow> d1\<lparr>ExpirationDate := Some t\<rparr>);
          d3 = (case ddCreationDate domainDetail of None \<Rightarrow> d2
                | Some t \<Rightarrow> d2\<lparr>CreationDate := Some t\<rparr>)
      in (case ddStatusList domainDetail of [] \<Rightarrow> d3
          | s # _ \<Rightarrow> d3\<lparr>Status := Some s\<rparr>))"

text \<open>\<open>Create\<close> from the statement after the polling loop to its end.\<close>

definition Create_afterPolling ::
  "env \<Rightarrow> DomainRegistrationResourceModel \<Rightarrow> world \<Rightarrow> CreateResult \<times> world" where
  "Create_afterPolling e data w =
     (let domainName = DomainName data;
          (nsErr, w1) = (if length (Nameservers data) > 0
                         then callUpdateDomainNameservers e domainName (Nameservers data) w
                         else (None, w))
      in case nsErr of
           Some er \<Rightarrow> (Failed (ErrorUpdatingNameservers er), w1)
         | None \<Rightarrow>
             (case callGetDomainDetail e domainName w1 of
                (Inl er, w2) \<Rightarrow> (Failed (ErrorReadingDomainDetails er), w2)
              | (Inr domainDetail, w2) \<Rightarrow>
                  (case Create_hostedZone e (setComputed domainDetail data) w2 of
                     (data', w3) \<Rightarrow> (Done data', w3))))"

definition registerInput :: "DomainRegistrationResourceModel \<Rightarrow> RegisterDomainInput" where
  "registerInput data =
     \<lparr>rdDomainName = DomainName data,
      rdDurationInYears = ucast (DurationYears data),
      rdAutoRenew = AutoRenew data,
      rdPrivacyProtectAdminContact = AdminPrivacy data,
      rdPrivacyProtectRegistrantContact = RegistrantPrivacy data,
      rdPrivacyProtectTechContact = TechPrivacy data\<rparr>"

text \<open>
  \<open>time.Duration(timeout) * time.Second\<close> is a multiplication of 64-bit integers;
  the deadline is the time after \<open>RegisterDomain\<close> has returned plus that duration.
  Time passes during remote calls and sleeps only. A successful \<open>RegisterDomain\<close>
  response carries its operation id.
\<close>

definition timeoutDuration :: "DomainRegistrationResourceModel \<Rightarrow> int" where
  "timeoutDuration data = sint (RegistrationTimeout data * 1000000000)"

definition Create ::
  "env \<Rightarrow> DomainRegistrationResourceModel \<Rightarrow> world \<Rightarrow> CreateResult \<times> world" where
  "Create e data w =
     (case callRegisterDomain e (registerInput data) w of
        (Inl er, w1) \<Rightarrow> (Failed (ErrorRegisteringDomain er), w1)
      | (Inr operationId, w1) \<Rightarrow>
          (let deadline = clock w1 + timeoutDuration data
           in case pollLoop e operationId deadline w1 of
                (Some d, w2) \<Rightarrow> (Failed d, w2)
              | (None, w2) \<Rightarrow> Create_afterPolling e data w2))"

section \<open>Read\<close>

datatype ReadResult = RemoveResource | StateSet DomainRegistrationResourceModel

definition Read ::
  "env \<Rightarrow> DomainRegistrationResourceModel \<Rightarrow> world \<Rightarrow> ReadResult \<times> world" where
  "Read e data w =
     (let domainName = DomainName data
      in case callGetDomainDetail e domainName w of
           (Inl er, w1) \<Rightarrow> (RemoveResource, w1)
         | (Inr domainDetail, w1) \<Rightarrow>
             (let d0 = data\<lparr>ID := Some domainName\<rparr>;
                  d1 = (case ddAutoRenew domainDetail of None \<Rightarrow> d0
                        | Some b \<Rightarrow> d0\<lparr>AutoRenew := b\<rparr>);
                  d2 = (case ddExpirationDate domainDetail of None \<Rightarrow> d1
                        | Some t \<Rightarrow> d1\<lparr>ExpirationDate := Some t\<rparr>);
                  d3 = (case ddCreationDate domainDetail of None \<Rightarrow> d2
                        | Some t \<Rightarrow> d2\<lparr>CreationDate := Some t\<rparr>);
                  d4 = (case ddStatusList domainDetail of [] \<Rightarrow> d3
                        | s # _ \<Rightarrow> d3\<lparr>Status := Some s\<rparr>);
                  d5 = (if length (ddNameservers domainDetail) > 0
                        then d4\<lparr>Nameservers := map ToString (ddNameservers domainDetail)\<rparr>
                        else d4)
              in case findHostedZoneID e domainName w1 of
                   (Inl er, w2) \<Rightarrow> (StateSet (d5\<lparr>HostedZoneID := None\<rparr>), w2)
                 | (Inr hostedZoneID, w2) \<Rightarrow>
                     (StateSet (d5\<lparr>HostedZoneID := Some hostedZoneID\<rparr>), w2)))"

section \<open>Delete\<close>

datatype DeleteError = ErrorDeletingDomain err

text \<open>
  \<open>Delete\<close> returns the error diagnostics it added. It never touches the state of the
  response itself: the plugin framework drops the resource from the state when
  \<open>Delete\<close> returns without an error diagnostic.
\<close>

definition Delete ::
  "env \<Rightarrow> DomainRegistrationResourceModel \<Rightarrow> world \<Rightarrow> DeleteError list \<times> world" where
  "Delete e data w =
     (let domainName = DomainName data
      in if \<not> AllowDelete data then ([], w)
         else
           (case callDeleteDomain e domainName w of
              (Some er, w1) \<Rightarrow> ([ErrorDeletingDomain er], w1)
            | (None, w1) \<Rightarrow>
                (case deleteRegistrarHostedZone e domainName w1 of
                   (zoneErr, w2) \<Rightarrow> ([], w2))))"

section \<open>The safe-delete predicates as the specification words them\<close>

text \<open>
  The name of a zone is compared after one trailing dot is removed from it (zone names
  carry the dot, domain names do not).
\<close>

definition exactNameMatch :: "string \<Rightarrow> HostedZone \<Rightarrow> bool" where
  "exactNameMatch domainName zone = (TrimSuffix (ToString (hzName zone)) ''.'' = domainName)"

definition zoneIsPrivate :: "HostedZone \<Rightarrow> bool" where
  "zoneIsPrivate zone = (case hzConfig zone of None \<Rightarrow> False | Some c \<Rightarrow> hzPrivateZone c)"

definition zoneComment :: "HostedZone \<Rightarrow> string" where
  "zoneComment zone = (case hzConfig zone of None \<Rightarrow> [] | Some c \<Rightarrow> ToString (hzComment c))"

definition onlyNSandSOA :: "ResourceRecordSet list \<Rightarrow> bool" where
  "onlyNSandSOA records = list_all (\<lambda>r. rrType r = ''NS'' \<or> rrType r = ''SOA'') records"

text \<open>
  The invariant of the specification: a zone with the given records is eligible for
  deletion iff its name equals the domain name, it is public, its comment is the
  sentinel of the registrar, and every record has type NS or SOA.
\<close>

definition eligibleForDeletion ::
  "string \<Rightarrow> HostedZone \<Rightarrow> ResourceRecordSet list \<Rightarrow> bool" where
  "eligibleForDeletion domainName zone records =
     (exactNameMatch domainName zone \<and> \<not> zoneIsPrivate zone
      \<and> zoneComment zone = ''HostedZone created by Route53 Registrar''
      \<and> onlyNSandSOA records)"

text \<open>
  The remote side of \<open>ListHostedZonesByName\<close> is not part of the repository. Its
  contract, as far as the lookup depends on it: the response holds at most \<open>MaxItems\<close>
  zones, the first ones of the candidates the account has for the name.
\<close>

definition listingService ::
  "(string \<Rightarrow> HostedZone list) \<Rightarrow> world \<Rightarrow> string \<Rightarrow> int \<Rightarrow> err + HostedZone list" where
  "listingService account w dnsName maxItems = Inr (take (nat maxItems) (account dnsName))"

section \<open>Traces\<close>

text \<open>The events a run has added to the history.\<close>

definition newEvents :: "world \<Rightarrow> world \<Rightarrow> event list" where
  "newEvents w w' = drop (length (history w)) (history w')"

fun isPoll :: "event \<Rightarrow> bool" where
  "isPoll (EvGetOperationDetail opid r) = True"
| "isPoll ev = False"

fun isSleep :: "event \<Rightarrow> bool" where
  "isSleep (EvSleep d) = True"
| "isSleep ev = False"

fun isRegisterDomain :: "event \<Rightarrow> bool" where
  "isRegisterDomain (EvRegisterDomain i r) = True"
| "isRegisterDomain ev = False"

fun isUpdateDomainNameservers :: "event \<Rightarrow> bool" where
  "isUpdateDomainNameservers (EvUpdateDomainNameservers d ns r) = True"
| "isUpdateDomainNameservers ev = False"

fun isGetDomainDetail :: "event \<Rightarrow> bool" where
  "isGetDomainDetail (EvGetDomainDetail d r) = True"
| "isGetDomainDetail ev = False"

fun isDeleteHostedZone :: "event \<Rightarrow> bool" where
  "isDeleteHostedZone (EvDeleteHostedZone z r) = True"
| "isDeleteHostedZone ev = False"

fun zoneEvent :: "event \<Rightarrow> bool" where
  "zoneEvent (EvListHostedZonesByName d n r) = True"
| "zoneEvent (EvListResourceRecordSets z r) = True"
| "zoneEvent (EvDeleteHostedZone z r) = True"
| "zoneEvent ev = False"

text \<open>A poll that answered with a status that is not terminal.\<close>

fun nonTerminalPoll :: "event \<Rightarrow> bool" where
  "nonTerminalPoll (EvGetOperationDetail opid (Inr d)) =
     (odStatus d = PENDING \<or> odStatus d = IN_PROGRESS)"
| "nonTerminalPoll ev = False"

text \<open>What the loop body does with the answer of a poll.\<close>

fun pollVerdict :: "event \<Rightarrow> CreateError option" where
  "pollVerdict (EvGetOperationDetail opid (Inl er)) = Some (ErrorCheckingRegistrationStatus er)"
| "pollVerdict (EvGetOperationDetail opid (Inr d)) =
     (if odStatus d = FAILED then Some (DomainRegistrationFailed (ToString (odMessage d)))
      else if odStatus d = ERROR then Some (DomainRegistrationError (ToString (odMessage d)))
      else None)"
| "pollVerdict ev = None"

text \<open>
  The trace of a polling loop: polls of one operation and sleeps, where every event
  but the last is a sleep or a poll with a non-terminal answer.
\<close>

definition pollRun :: "string \<Rightarrow> event list \<Rightarrow> bool" where
  "pollRun opid es =
     ((\<forall>ev\<in>set es. (\<exists>r. ev = EvGetOperationDetail opid r) \<or> isSleep ev) \<and>
      (\<forall>ev\<in>set (butlast es). isSleep ev \<or> nonTerminalPoll ev))"

definition verdictOf :: "event list \<Rightarrow> CreateError option" where
  "verdictOf es = (if es = [] then None else pollVerdict (last es))"

text \<open>The trace of \<open>Create\<close> after the polling loop, by result.\<close>

definition afterShape ::
  "DomainRegistrationResourceModel \<Rightarrow> CreateResult \<Rightarrow> event list \<Rightarrow> bool" where
  "afterShape data r es =
     (let d = DomainName data; ns = Nameservers data;
          pre = (if ns = [] then [] else [EvUpdateDomainNameservers d ns None])
      in (\<exists>er. ns \<noteq> [] \<and> r = Failed (ErrorUpdatingNameservers er)
                \<and> es = [EvUpdateDomainNameservers d ns (Some er)])
       \<or> (\<exists>er. r = Failed (ErrorReadingDomainDetails er)
                \<and> es = pre @ [EvGetDomainDetail d (Inl er)])
       \<or> (\<exists>data' dd zs. r = Done data' \<and> es = pre @ EvGetDomainDetail d (Inr dd) # zs
                \<and> (\<forall>ev\<in>set zs. zoneEvent ev)))"

text \<open>The trace of a whole run of \<open>Create\<close>, by result.\<close>

definition createShape ::
  "DomainRegistrationResourceModel \<Rightarrow> CreateResult \<Rightarrow> event list \<Rightarrow> bool" where
  "createShape data r es =
     ((\<exists>er. r = Failed (ErrorRegisteringDomain er)
             \<and> es = [EvRegisterDomain (registerInput data) (Inl er)])
      \<or> (\<exists>opid ps qs. es = EvRegisterDomain (registerInput data) (Inr opid) # ps @ qs
             \<and> pollRun opid ps
             \<and> ((\<exists>d. verdictOf ps = Some d \<and> r = Failed d \<and> qs = [])
                \<or> (verdictOf ps = None \<and> afterShape data r qs))))"

section \<open>Concrete environments and requests\<close>

definition w0 :: world where
  "w0 = \<lparr>clock = 0, history = []\<rparr>"

definition okDetail :: DomainDetail where
  "okDetail =
     \<lparr>ddAutoRenew = Some True, ddExpirationDate = Some ''2027-11-03T00:00:00Z'',
      ddCreationDate = Some ''2026-11-03T00:00:00Z'',
      ddStatusList = [''clientTransferProhibited''], ddNameservers = []\<rparr>"

text \<open>Every call succeeds at once, the registration is complete, no zone exists.\<close>

definition baseEnv :: env where
  "baseEnv =
     \<lparr>RegisterDomain_r = (\<lambda>w inp. Inr ''op-1''),
      GetOperationDetail_r = (\<lambda>w opid. Inr \<lparr>odStatus = SUCCESSFUL, odMessage = None\<rparr>),
      UpdateDomainNameservers_r = (\<lambda>w d ns. None),
      GetDomainDetail_r = (\<lambda>w d. Inr okDetail),
      DeleteDomain_r = (\<lambda>w d. None),
      ListHostedZonesByName_r = (\<lambda>w d n. Inr []),
      ListResourceRecordSets_r = (\<lambda>w z. Inr []),
      DeleteHostedZone_r = (\<lambda>w z. None),
      Delay = (\<lambda>w. 0)\<rparr>"

text \<open>The registration never leaves \<open>IN_PROGRESS\<close>.\<close>

definition stuckEnv :: env where
  "stuckEnv = baseEnv\<lparr>GetOperationDetail_r :=
     (\<lambda>w opid. Inr \<lparr>odStatus = IN_PROGRESS, odMessage = None\<rparr>)\<rparr>"

text \<open>
  The polls answer \<open>PENDING\<close>, \<open>IN_PROGRESS\<close> and then the given status with the given
  message.
\<close>

definition thirdPoll :: "OperationStatus \<Rightarrow> string option \<Rightarrow> world \<Rightarrow> string \<Rightarrow> err + OperationDetail" where
  "thirdPoll s m w opid =
     (let n = length (filter isPoll (history w))
      in if n = 0 then Inr \<lparr>odStatus = PENDING, odMessage = None\<rparr>
         else if n = 1 then Inr \<lparr>odStatus = IN_PROGRESS, odMessage = None\<rparr>
         else Inr \<lparr>odStatus = s, odMessage = m\<rparr>)"

definition rejectingEnv :: env where
  "rejectingEnv = baseEnv\<lparr>GetOperationDetail_r :=
     thirdPoll FAILED (Some ''Domain is not available'')\<rparr>"

definition nameserverFailEnv :: env where
  "nameserverFailEnv = baseEnv\<lparr>GetOperationDetail_r := thirdPoll SUCCESSFUL None,
     UpdateDomainNameservers_r := (\<lambda>w d ns. Some ''InvalidInput: nameserver'')\<rparr>"

definition request :: DomainRegistrationResourceModel where
  "request =
     \<lparr>ID = None, DomainName = ''test-domain.example'', DurationYears = 1, AutoRenew = False,
      AdminPrivacy = True, RegistrantPrivacy = True, TechPrivacy = True,
      Nameservers = [''ns1.example.net''], AllowDelete = False, DeleteHostedZone = False,
      Status = None, ExpirationDate = None, CreationDate = None, RegistrationTimeout = 30,
      HostedZoneID = None\<rparr>"

definition registrarZone :: HostedZone where
  "registrarZone =
     \<lparr>hzName = Some ''example.com.'', hzId = Some ''/hostedzone/Z1234567890ABC'',
      hzConfig = Some \<lparr>hzComment = Some ''HostedZone created by Route53 Registrar'',
                       hzPrivateZone = False\<rparr>\<rparr>"

definition privateZone :: HostedZone where
  "privateZone =
     \<lparr>hzName = Some ''example.com.'', hzId = Some ''/hostedzone/Z0PRIVATE'',
      hzConfig = Some \<lparr>hzComment = Some ''internal'', hzPrivateZone = True\<rparr>\<rparr>"

definition handMadeZone :: HostedZone where
  "handMadeZone =
     \<lparr>hzName = Some ''example.com.'', hzId = Some ''/hostedzone/Z0HANDMADE'',
      hzConfig = Some \<lparr>hzComment = Some ''managed by hand'', hzPrivateZone = False\<rparr>\<rparr>"

definition subZone :: HostedZone where
  "subZone = \<lparr>hzName = Some ''sub.example.com.'', hzId = Some ''/hostedzone/Z0SUB'',
              hzConfig = None\<rparr>"

definition notZone :: HostedZone where
  "notZone = \<lparr>hzName = Some ''notexample.com.'', hzId = Some ''/hostedzone/Z0NOT'',
              hzConfig = None\<rparr>"

definition nsRecord :: ResourceRecordSet where
  "nsRecord = \<lparr>rrName = Some ''example.com.'', rrType = ''NS''\<rparr>"

definition soaRecord :: ResourceRecordSet where
  "soaRecord = \<lparr>rrName = Some ''example.com.'', rrType = ''SOA''\<rparr>"

definition aRecord :: ResourceRecordSet where
  "aRecord = \<lparr>rrName = Some ''www.example.com.'', rrType = ''A''\<rparr>"

text \<open>
  An environment with the given zone listing, the given records in every zone, and the
  given answer to a zone deletion.
\<close>

definition zoneEnv :: "HostedZone list \<Rightarrow> ResourceRecordSet list \<Rightarrow> err option \<Rightarrow> env" where
  "zoneEnv zones records del =
     baseEnv\<lparr>ListHostedZonesByName_r := (\<lambda>w d n. Inr zones),
             ListResourceRecordSets_r := (\<lambda>w z. Inr records),
             DeleteHostedZone_r := (\<lambda>w z. del)\<rparr>"

text \<open>An account whose listing for a name starts with another zone.\<close>

definition accountEnv :: env where
  "accountEnv = baseEnv\<lparr>ListHostedZonesByName_r :=
     listingService (\<lambda>d. [subZone, registrarZone])\<rparr>"

definition failingDetailEnv :: "err \<Rightarrow> env" where
  "failingDetailEnv er = baseEnv\<lparr>GetDomainDetail_r := (\<lambda>w d. Inl er)\<rparr>"

definition stored :: DomainRegistrationResourceModel where
  "stored = request\<lparr>ID := Some ''example.com'', DomainName := ''example.com''\<rparr>"

section \<open>Basic facts about traces\<close>

lemma history_record_call [simp]:
  "history (record_call e ev w) = history w @ [ev]"
  by (simp add: record_call_def)

lemma history_Sleep [simp]: "history (Sleep e d w) = history w @ [EvSleep d]"
  by (simp add: Sleep_def)

lemma newEvents_record_call [simp]: "newEvents w (record_call e ev w) = [ev]"
  by (simp add: newEvents_def)

lemma newEvents_self [simp]: "newEvents w w = []"
  by (simp add: newEvents_def)

lemma in_set_not_butlast:
  "x \<in> set xs \<Longrightarrow> x \<notin> set (butlast xs) \<Longrightarrow> xs \<noteq> [] \<and> last xs = x"
  by (induction xs) (auto split: if_splits)

lemma zoneEvent_excl:
  "zoneEvent ev \<Longrightarrow>
     \<not> isPoll ev \<and> \<not> isRegisterDomain ev \<and> \<not> isUpdateDomainNameservers ev
     \<and> \<not> isGetDomainDetail ev"
  by (cases ev) auto

lemma zoneEvents_no_update:
  "\<forall>x\<in>set zs. zoneEvent x \<Longrightarrow> EvUpdateDomainNameservers d ns r \<notin> set zs"
  by auto

section \<open>The zone guard\<close>

lemma firstCustomRecord_None: "(firstCustomRecord rs = None) = onlyNSandSOA rs"
  by (induction rs) (auto simp: onlyNSandSOA_def)

lemma firstCustomRecord_Some:
  "firstCustomRecord rs = Some r \<Longrightarrow>
     r \<in> set rs \<and> rrType r \<noteq> ''NS'' \<and> rrType r \<noteq> ''SOA''"
  by (induction rs) (auto split: if_splits)

lemma find_loop_skip:
  "\<forall>y\<in>set pre. \<not> exactNameMatch d y \<Longrightarrow>
   findHostedZoneID_loop d (pre @ zs) = findHostedZoneID_loop d zs"
  by (induction pre) (auto simp: exactNameMatch_def Let_def)

lemma find_loop_none:
  "\<forall>y\<in>set zs. \<not> exactNameMatch d y \<Longrightarrow>
   findHostedZoneID_loop d zs = Inl (HostedZoneNotFound d)"
  by (induction zs) (auto simp: exactNameMatch_def Let_def)

lemma delete_loop_skip:
  "\<forall>y\<in>set pre. \<not> exactNameMatch d y \<Longrightarrow>
   deleteRegistrarHostedZone_loop e d (pre @ zs) w = deleteRegistrarHostedZone_loop e d zs w"
  by (induction pre) (auto simp: exactNameMatch_def Let_def)

text \<open>The body of the loop, with the calls written out.\<close>

lemma deleteMatchedZone_cases:
  "deleteMatchedZone e zone w =
    (if zoneIsPrivate zone then (Some HostedZoneIsPrivate, w)
     else if zoneComment zone \<noteq> registrarComment
       then (Some (CommentMismatch (zoneComment zone)), w)
     else (case ListResourceRecordSets_r e w (ToString (hzId zone)) of
        Inl er \<Rightarrow> (Some (FailedToListRecords er),
                    record_call e (EvListResourceRecordSets (ToString (hzId zone)) (Inl er)) w)
      | Inr records \<Rightarrow>
         (let w1 = record_call e (EvListResourceRecordSets (ToString (hzId zone)) (Inr records)) w
          in case firstCustomRecord records of
            Some r \<Rightarrow> (Some (HasCustomRecord (ToString (rrName r)) (rrType r)), w1)
          | None \<Rightarrow>
              (map_option FailedToDeleteHostedZone
                 (DeleteHostedZone_r e w1 (ToString (hzId zone))),
               record_call e (EvDeleteHostedZone (ToString (hzId zone))
                    (DeleteHostedZone_r e w1 (ToString (hzId zone)))) w1))))"
  by (auto simp: deleteMatchedZone_def zoneIsPrivate_def zoneComment_def ToString_def Let_def
       callListResourceRecordSets_def callDeleteHostedZone_def
       split: option.splits sum.splits)

lemma deleteRegistrarHostedZone_located:
  assumes "ListHostedZonesByName_r e w d 1 = Inr (pre @ zone # post)"
      and "\<forall>y\<in>set pre. \<not> exactNameMatch d y"
      and "exactNameMatch d zone"
  shows "deleteRegistrarHostedZone e d w =
           deleteMatchedZone e zone
             (record_call e (EvListHostedZonesByName d 1 (Inr (pre @ zone # post))) w)"
  using assms
  by (simp add: deleteRegistrarHostedZone_def callListHostedZonesByName_def Let_def
        delete_loop_skip) (simp add: exactNameMatch_def)

lemma snd_findHostedZoneID:
  "snd (findHostedZoneID e d w) =
     record_call e (EvListHostedZonesByName d 1 (ListHostedZonesByName_r e w d 1)) w"
  by (simp add: findHostedZoneID_def callListHostedZonesByName_def Let_def split: sum.splits)

lemma deleteMatchedZone_history:
  "\<exists>es. history (snd (deleteMatchedZone e zone w)) = history w @ es
        \<and> (\<forall>ev\<in>set es. zoneEvent ev)"
  by (simp add: deleteMatchedZone_cases Let_def split: sum.splits option.splits)

lemma deleteLoop_history:
  "\<exists>es. history (snd (deleteRegistrarHostedZone_loop e d zs w)) = history w @ es
        \<and> (\<forall>ev\<in>set es. zoneEvent ev)"
  by (induction zs) (simp_all add: Let_def deleteMatchedZone_history)

lemma deleteRegistrarHostedZone_history:
  "\<exists>es. history (snd (deleteRegistrarHostedZone e d w)) = history w @ es
        \<and> (\<forall>ev\<in>set es. zoneEvent ev)"
proof (cases "ListHostedZonesByName_r e w d 1")
  case (Inl er)
  then show ?thesis
    by (simp add: deleteRegistrarHostedZone_def callListHostedZonesByName_def Let_def)
next
  case (Inr zs)
  let ?w1 = "record_call e (EvListHostedZonesByName d 1 (Inr zs)) w"
  from deleteLoop_history[of e d zs ?w1] obtain es where
    "history (snd (deleteRegistrarHostedZone_loop e d zs ?w1)) = history ?w1 @ es"
    "\<forall>ev\<in>set es. zoneEvent ev" by blast
  then show ?thesis using Inr
    by (intro exI[of _ "EvListHostedZonesByName d 1 (Inr zs) # es"])
       (simp add: deleteRegistrarHostedZone_def callListHostedZonesByName_def Let_def)
qed

lemma deleteRegistrarHostedZone_loop_find:
  "deleteRegistrarHostedZone_loop e d zs w =
     (case find (exactNameMatch d) zs of
        None \<Rightarrow> (Some (HostedZoneNotFound d), w)
      | Some z \<Rightarrow> deleteMatchedZone e z w)"
  by (induction zs) (simp_all add: exactNameMatch_def Let_def)

text \<open>
  C2. No assumption is made on the answers of the remote service. A
  \<open>DeleteHostedZone\<close> call is issued iff the zone listing answers with zones, the first
  of them whose name equals the domain name after the trailing dot is removed exists,
  the record listing of that zone answers with its records, and the four predicates
  hold of that zone and these records: name equal, zone public, comment equal to the
  sentinel, every record of type NS or SOA. In particular no call is issued when either
  listing fails. Every \<open>DeleteHostedZone\<close> call of the run is for that zone, and there
  is at most one, so that no other zone of the listing is ever deleted. The result is
  \<open>nil\<close> (deleted) iff a \<open>DeleteHostedZone\<close> call succeeded; and a zone that passes the
  first three predicates and has a record of another type is skipped with the
  custom-record reason for such a record.
\<close>

theorem safeDelete_iff_eligible:
  "((\<exists>ev\<in>set (newEvents w (snd (deleteRegistrarHostedZone e domainName w))).
        isDeleteHostedZone ev)
      = (\<exists>zones zone records.
           ListHostedZonesByName_r e w domainName 1 = Inr zones
         \<and> find (exactNameMatch domainName) zones = Some zone
         \<and> ListResourceRecordSets_r e
               (record_call e (EvListHostedZonesByName domainName 1 (Inr zones)) w)
               (ToString (hzId zone)) = Inr records
         \<and> eligibleForDeletion domainName zone records))
   \<and> (\<forall>ev\<in>set (newEvents w (snd (deleteRegistrarHostedZone e domainName w))).
         isDeleteHostedZone ev \<longrightarrow>
           (\<exists>zones zone r.
              ListHostedZonesByName_r e w domainName 1 = Inr zones
            \<and> find (exactNameMatch domainName) zones = Some zone
            \<and> ev = EvDeleteHostedZone (ToString (hzId zone)) r))
   \<and> length (filter isDeleteHostedZone
         (newEvents w (snd (deleteRegistrarHostedZone e domainName w)))) \<le> 1
   \<and> ((fst (deleteRegistrarHostedZone e domainName w) = None)
       = (\<exists>z. EvDeleteHostedZone z None
                \<in> set (newEvents w (snd (deleteRegistrarHostedZone e domainName w)))))
   \<and> (\<forall>zones zone records.
          ListHostedZonesByName_r e w domainName 1 = Inr zones
        \<and> find (exactNameMatch domainName) zones = Some zone
        \<and> \<not> zoneIsPrivate zone
        \<and> zoneComment zone = ''HostedZone created by Route53 Registrar''
        \<and> ListResourceRecordSets_r e
              (record_call e (EvListHostedZonesByName domainName 1 (Inr zones)) w)
              (ToString (hzId zone)) = Inr records
        \<and> \<not> onlyNSandSOA records \<longrightarrow>
          (\<exists>r\<in>set records. rrType r \<noteq> ''NS'' \<and> rrType r \<noteq> ''SOA'' \<and>
             fst (deleteRegistrarHostedZone e domainName w)
               = Some (HasCustomRecord (ToString (rrName r)) (rrType r))))"
proof (cases "ListHostedZonesByName_r e w domainName 1")
  case (Inl er)
  then have "deleteRegistrarHostedZone e domainName w =
      (Some (FailedToListHostedZones er),
       record_call e (EvListHostedZonesByName domainName 1 (Inl er)) w)"
    by (simp add: deleteRegistrarHostedZone_def callListHostedZonesByName_def Let_def)
  with Inl show ?thesis by simp
next
  case (Inr zones)
  let ?w1 = "record_call e (EvListHostedZonesByName domainName 1 (Inr zones)) w"
  have loop: "deleteRegistrarHostedZone e domainName w
      = deleteRegistrarHostedZone_loop e domainName zones ?w1"
    using Inr
    by (simp add: deleteRegistrarHostedZone_def callListHostedZonesByName_def Let_def)
  show ?thesis
  proof (cases "find (exactNameMatch domainName) zones")
    case None
    then have "deleteRegistrarHostedZone e domainName w
        = (Some (HostedZoneNotFound domainName), ?w1)"
      unfolding loop by (simp add: deleteRegistrarHostedZone_loop_find)
    with Inr None show ?thesis by simp
  next
    case (Some zone)
    then have hit: "exactNameMatch domainName zone"
      by (auto simp: find_Some_iff)
    have eq: "deleteRegistrarHostedZone e domainName w = deleteMatchedZone e zone ?w1"
      unfolding loop using Some by (simp add: deleteRegistrarHostedZone_loop_find)
    have h: "history ?w1 = history w @ [EvListHostedZonesByName domainName 1 (Inr zones)]"
      by simp
    show ?thesis
    proof (cases "zoneIsPrivate zone \<or> zoneComment zone \<noteq> registrarComment")
      case True
      then show ?thesis unfolding eq using Inr Some
        by (auto simp: deleteMatchedZone_cases eligibleForDeletion_def registrarComment_def)
    next
      case ok: False
      show ?thesis
      proof (cases "ListResourceRecordSets_r e ?w1 (ToString (hzId zone))")
        case failed: (Inl er)
        with ok show ?thesis unfolding eq using Inr Some
          by (auto simp: deleteMatchedZone_cases newEvents_def)
      next
        case listed: (Inr records)
        show ?thesis
        proof (cases "firstCustomRecord records")
          case None
          then have "onlyNSandSOA records" by (simp add: firstCustomRecord_None)
          with ok hit None listed Inr Some show ?thesis unfolding eq
            by (auto simp: deleteMatchedZone_cases eligibleForDeletion_def
                  registrarComment_def Let_def newEvents_def)
        next
          case custom: (Some c)
          then have "\<not> onlyNSandSOA records"
            using firstCustomRecord_None[of records] by simp
          with ok hit custom listed Inr Some firstCustomRecord_Some[OF custom]
          show ?thesis unfolding eq
            by (auto simp: deleteMatchedZone_cases eligibleForDeletion_def
                  registrarComment_def Let_def newEvents_def)
        qed
      qed
    qed
  qed
qed

theorem safeDelete_iff_eligible_witness:
  "fst (deleteRegistrarHostedZone
          (zoneEnv [registrarZone] [nsRecord, soaRecord, soaRecord] None) ''example.com'' w0)
     = None
   \<and> (\<exists>ev\<in>set (newEvents w0 (snd (deleteRegistrarHostedZone
           (zoneEnv [registrarZone] [nsRecord, soaRecord, soaRecord] None) ''example.com'' w0))).
         isDeleteHostedZone ev)
   \<and> fst (deleteRegistrarHostedZone
          (zoneEnv [registrarZone] [nsRecord, soaRecord, soaRecord, aRecord] None)
          ''example.com'' w0)
     = Some (HasCustomRecord ''www.example.com.'' ''A'')
   \<and> \<not> (\<exists>ev\<in>set (newEvents w0 (snd (deleteRegistrarHostedZone
           (zoneEnv [registrarZone] [nsRecord, soaRecord, soaRecord, aRecord] None)
           ''example.com'' w0))). isDeleteHostedZone ev)
   \<and> \<not> (\<exists>ev\<in>set (newEvents w0 (snd (deleteRegistrarHostedZone
           (zoneEnv [privateZone, registrarZone] [nsRecord, soaRecord, soaRecord] None)
           ''example.com'' w0))). isDeleteHostedZone ev)
   \<and> \<not> (\<exists>ev\<in>set (newEvents w0 (snd (deleteRegistrarHostedZone
           ((zoneEnv [registrarZone] [nsRecord, soaRecord, soaRecord] None)
              \<lparr>ListResourceRecordSets_r := (\<lambda>w z. Inl ''Throttling'')\<rparr>)
           ''example.com'' w0))). isDeleteHostedZone ev)"
proof -
  let ?clean = "[nsRecord, soaRecord, soaRecord]"
  let ?custom = "[nsRecord, soaRecord, soaRecord, aRecord]"
  let ?e1 = "zoneEnv [registrarZone] ?clean None"
  let ?e2 = "zoneEnv [registrarZone] ?custom None"
  let ?e3 = "zoneEnv [privateZone, registrarZone] ?clean None"
  let ?e4 = "?e1\<lparr>ListResourceRecordSets_r := (\<lambda>w z. Inl ''Throttling'')\<rparr>"
  have m: "exactNameMatch ''example.com'' registrarZone"
      "exactNameMatch ''example.com'' privateZone"
    by (simp_all add: exactNameMatch_def registrarZone_def privateZone_def ToString_def
          TrimSuffix_def)
  have el1: "eligibleForDeletion ''example.com'' registrarZone ?clean"
    using m by (simp add: eligibleForDeletion_def zoneIsPrivate_def zoneComment_def
          onlyNSandSOA_def registrarZone_def nsRecord_def soaRecord_def ToString_def)
  have el2: "\<not> eligibleForDeletion ''example.com'' registrarZone ?custom"
    by (simp add: eligibleForDeletion_def onlyNSandSOA_def aRecord_def)
  have el3: "\<not> eligibleForDeletion ''example.com'' privateZone rs" for rs
    by (simp add: eligibleForDeletion_def zoneIsPrivate_def privateZone_def)
  have pre2: "\<not> zoneIsPrivate registrarZone
      \<and> zoneComment registrarZone = ''HostedZone created by Route53 Registrar''
      \<and> \<not> onlyNSandSOA ?custom"
    by (simp add: zoneIsPrivate_def zoneComment_def onlyNSandSOA_def registrarZone_def
          aRecord_def ToString_def)
  note t1 = safeDelete_iff_eligible[where e = ?e1 and w = w0 and domainName = "''example.com''"]
  note t2 = safeDelete_iff_eligible[where e = ?e2 and w = w0 and domainName = "''example.com''"]
  note t3 = safeDelete_iff_eligible[where e = ?e3 and w = w0 and domainName = "''example.com''"]
  note t4 = safeDelete_iff_eligible[where e = ?e4 and w = w0 and domainName = "''example.com''"]
  have "\<exists>zones zone records.
           ListHostedZonesByName_r ?e1 w0 ''example.com'' 1 = Inr zones
         \<and> find (exactNameMatch ''example.com'') zones = Some zone
         \<and> ListResourceRecordSets_r ?e1
               (record_call ?e1 (EvListHostedZonesByName ''example.com'' 1 (Inr zones)) w0)
               (ToString (hzId zone)) = Inr records
         \<and> eligibleForDeletion ''example.com'' zone records"
    using m el1 by (simp add: zoneEnv_def)
  with t1 have d1: "\<exists>ev\<in>set (newEvents w0 (snd (deleteRegistrarHostedZone ?e1 ''example.com'' w0))).
      isDeleteHostedZone ev" by blast
  have res1: "fst (deleteRegistrarHostedZone ?e1 ''example.com'' w0) = None"
    by code_simp
  have "\<not> (\<exists>zones zone records.
           ListHostedZonesByName_r ?e2 w0 ''example.com'' 1 = Inr zones
         \<and> find (exactNameMatch ''example.com'') zones = Some zone
         \<and> ListResourceRecordSets_r ?e2
               (record_call ?e2 (EvListHostedZonesByName ''example.com'' 1 (Inr zones)) w0)
               (ToString (hzId zone)) = Inr records
         \<and> eligibleForDeletion ''example.com'' zone records)"
    using m el2 by (auto simp: zoneEnv_def)
  with t2 have d2: "\<not> (\<exists>ev\<in>set (newEvents w0 (snd (deleteRegistrarHostedZone ?e2 ''example.com'' w0))).
      isDeleteHostedZone ev)" by blast
  have "ListHostedZonesByName_r ?e2 w0 ''example.com'' 1 = Inr [registrarZone]
        \<and> find (exactNameMatch ''example.com'') [registrarZone] = Some registrarZone
        \<and> \<not> zoneIsPrivate registrarZone
        \<and> zoneComment registrarZone = ''HostedZone created by Route53 Registrar''
        \<and> ListResourceRecordSets_r ?e2
              (record_call ?e2 (EvListHostedZonesByName ''example.com'' 1 (Inr [registrarZone])) w0)
              (ToString (hzId registrarZone)) = Inr ?custom
        \<and> \<not> onlyNSandSOA ?custom"
    using m pre2 by (simp add: zoneEnv_def)
  with t2 have "\<exists>r\<in>set ?custom. rrType r \<noteq> ''NS'' \<and> rrType r \<noteq> ''SOA'' \<and>
      fst (deleteRegistrarHostedZone ?e2 ''example.com'' w0)
        = Some (HasCustomRecord (ToString (rrName r)) (rrType r))" by blast
  then have res2: "fst (deleteRegistrarHostedZone ?e2 ''example.com'' w0)
      = Some (HasCustomRecord ''www.example.com.'' ''A'')"
    by (simp add: nsRecord_def soaRecord_def aRecord_def ToString_def)
  have "\<not> (\<exists>zones zone records.
           ListHostedZonesByName_r ?e3 w0 ''example.com'' 1 = Inr zones
         \<and> find (exactNameMatch ''example.com'') zones = Some zone
         \<and> ListResourceRecordSets_r ?e3
               (record_call ?e3 (EvListHostedZonesByName ''example.com'' 1 (Inr zones)) w0)
               (ToString (hzId zone)) = Inr records
         \<and> eligibleForDeletion ''example.com'' zone records)"
    using m el3 by (auto simp: zoneEnv_def)
  with t3 have d3: "\<not> (\<exists>ev\<in>set (newEvents w0 (snd (deleteRegistrarHostedZone ?e3 ''example.com'' w0))).
      isDeleteHostedZone ev)" by blast
  have "\<not> (\<exists>zones zone records.
           ListHostedZonesByName_r ?e4 w0 ''example.com'' 1 = Inr zones
         \<and> find (exactNameMatch ''example.com'') zones = Some zone
         \<and> ListResourceRecordSets_r ?e4
               (record_call ?e4 (EvListHostedZonesByName ''example.com'' 1 (Inr zones)) w0)
               (ToString (hzId zone)) = Inr records
         \<and> eligibleForDeletion ''example.com'' zone records)"
    by (simp add: zoneEnv_def)
  with t4 have d4: "\<not> (\<exists>ev\<in>set (newEvents w0 (snd (deleteRegistrarHostedZone ?e4 ''example.com'' w0))).
      isDeleteHostedZone ev)" by blast
  from res1 d1 res2 d2 d3 d4 show ?thesis by blast
qed

text \<open>
  C3. The safety checks run in the order private zone, comment, records, and stop at
  the first that fails. For the zone the loop reaches (the first of the listing whose
  name matches): a private zone is skipped with the private-zone reason whatever its
  comment and its records are, and the zone listing is the only call made, so that the
  records are not fetched; a public zone with another comment is skipped with the
  comment reason, again without a record listing; and only a public zone with the
  sentinel comment has its records listed.
\<close>

theorem safeDelete_check_order:
  assumes listing: "ListHostedZonesByName_r e w domainName 1 = Inr (pre @ zone # post)"
      and skip: "\<forall>y\<in>set pre. \<not> exactNameMatch domainName y"
      and hit: "exactNameMatch domainName zone"
  shows "(zoneIsPrivate zone \<longrightarrow>
            fst (deleteRegistrarHostedZone e domainName w) = Some HostedZoneIsPrivate
          \<and> newEvents w (snd (deleteRegistrarHostedZone e domainName w))
              = [EvListHostedZonesByName domainName 1 (Inr (pre @ zone # post))])
       \<and> (\<not> zoneIsPrivate zone \<and> zoneComment zone \<noteq> registrarComment \<longrightarrow>
            fst (deleteRegistrarHostedZone e domainName w)
              = Some (CommentMismatch (zoneComment zone))
          \<and> newEvents w (snd (deleteRegistrarHostedZone e domainName w))
              = [EvListHostedZonesByName domainName 1 (Inr (pre @ zone # post))])
       \<and> (\<not> zoneIsPrivate zone \<and> zoneComment zone = registrarComment \<longrightarrow>
            (\<exists>r. take 2 (newEvents w (snd (deleteRegistrarHostedZone e domainName w)))
              = [EvListHostedZonesByName domainName 1 (Inr (pre @ zone # post)),
                 EvListResourceRecordSets (ToString (hzId zone)) r]))"
proof -
  let ?w1 = "record_call e (EvListHostedZonesByName domainName 1 (Inr (pre @ zone # post))) w"
  have eq: "deleteRegistrarHostedZone e domainName w = deleteMatchedZone e zone ?w1"
    using listing skip hit by (rule deleteRegistrarHostedZone_located)
  show ?thesis unfolding eq
    by (auto simp: deleteMatchedZone_cases newEvents_def Let_def
          split: sum.splits option.splits)
qed

theorem safeDelete_check_order_witness:
  "zoneIsPrivate privateZone
   \<and> \<not> onlyNSandSOA [nsRecord, soaRecord, aRecord]
   \<and> fst (deleteRegistrarHostedZone
        (zoneEnv [privateZone] [nsRecord, soaRecord, aRecord] None) ''example.com'' w0)
      = Some HostedZoneIsPrivate
   \<and> newEvents w0 (snd (deleteRegistrarHostedZone
        (zoneEnv [privateZone] [nsRecord, soaRecord, aRecord] None) ''example.com'' w0))
      = [EvListHostedZonesByName ''example.com'' 1 (Inr [privateZone])]
   \<and> fst (deleteRegistrarHostedZone
        (zoneEnv [handMadeZone] [nsRecord, soaRecord, aRecord] None) ''example.com'' w0)
      = Some (CommentMismatch ''managed by hand'')"
proof -
  let ?rs = "[nsRecord, soaRecord, aRecord]"
  let ?e1 = "zoneEnv [privateZone] ?rs None"
  let ?e2 = "zoneEnv [handMadeZone] ?rs None"
  have l1: "ListHostedZonesByName_r ?e1 w0 ''example.com'' 1 = Inr ([] @ privateZone # [])"
    by (simp add: zoneEnv_def)
  have l2: "ListHostedZonesByName_r ?e2 w0 ''example.com'' 1 = Inr ([] @ handMadeZone # [])"
    by (simp add: zoneEnv_def)
  have none: "\<forall>y\<in>set []. \<not> exactNameMatch ''example.com'' y" by simp
  have m1: "exactNameMatch ''example.com'' privateZone"
    by (simp add: exactNameMatch_def privateZone_def ToString_def TrimSuffix_def)
  have m2: "exactNameMatch ''example.com'' handMadeZone"
    by (simp add: exactNameMatch_def handMadeZone_def ToString_def TrimSuffix_def)
  have p1: "zoneIsPrivate privateZone"
    by (simp add: zoneIsPrivate_def privateZone_def)
  have p2: "\<not> zoneIsPrivate handMadeZone \<and> zoneComment handMadeZone \<noteq> registrarComment"
    by (simp add: zoneIsPrivate_def zoneComment_def handMadeZone_def ToString_def
          registrarComment_def)
  have c2: "zoneComment handMadeZone = ''managed by hand''"
    by (simp add: zoneComment_def handMadeZone_def ToString_def)
  have custom: "\<not> onlyNSandSOA ?rs"
    by (simp add: onlyNSandSOA_def aRecord_def)
  note t1 = safeDelete_check_order[OF l1 none m1]
  note t2 = safeDelete_check_order[OF l2 none m2]
  from t1 p1 have a: "fst (deleteRegistrarHostedZone ?e1 ''example.com'' w0)
        = Some HostedZoneIsPrivate
      \<and> newEvents w0 (snd (deleteRegistrarHostedZone ?e1 ''example.com'' w0))
        = [EvListHostedZonesByName ''example.com'' 1 (Inr [privateZone])]"
    by simp
  from t2 p2 have b: "fst (deleteRegistrarHostedZone ?e2 ''example.com'' w0)
        = Some (CommentMismatch ''managed by hand'')"
    unfolding c2 by blast
  from p1 custom a b show ?thesis by blast
qed

text \<open>
  C4. The lookup returns the identifier of the first zone of the listing whose name,
  with the trailing dot removed, equals the domain name, and reports that no zone was
  found when the listing has no such zone: a zone that merely shares a prefix or a
  suffix with the domain name is never returned. For \<open>example.com\<close>, a zone named
  \<open>example.com.\<close> matches, and zones named \<open>sub.example.com.\<close> or \<open>notexample.com.\<close>
  do not.
\<close>

theorem findHostedZoneID_exact_match:
  assumes listing: "ListHostedZonesByName_r e w domainName 1 = Inr zones"
  shows "((\<forall>z\<in>set zones. \<not> exactNameMatch domainName z) \<longrightarrow>
            fst (findHostedZoneID e domainName w) = Inl (HostedZoneNotFound domainName))
       \<and> (\<forall>pre z post. zones = pre @ z # post
             \<and> (\<forall>y\<in>set pre. \<not> exactNameMatch domainName y) \<and> exactNameMatch domainName z \<longrightarrow>
            fst (findHostedZoneID e domainName w)
              = Inr (TrimPrefix (ToString (hzId z)) ''/hostedzone/''))
       \<and> (\<forall>z. hzName z = Some ''example.com.'' \<longrightarrow> exactNameMatch ''example.com'' z)
       \<and> (\<forall>z. hzName z = Some ''sub.example.com.'' \<or> hzName z = Some ''notexample.com.'' \<longrightarrow>
             \<not> exactNameMatch ''example.com'' z)"
proof -
  have r: "fst (findHostedZoneID e domainName w) = findHostedZoneID_loop domainName zones"
    using listing by (simp add: findHostedZoneID_def callListHostedZonesByName_def Let_def)
  have a: "(\<forall>z\<in>set zones. \<not> exactNameMatch domainName z) \<longrightarrow>
            fst (findHostedZoneID e domainName w) = Inl (HostedZoneNotFound domainName)"
    unfolding r by (simp add: find_loop_none)
  have b: "\<forall>pre z post. zones = pre @ z # post
             \<and> (\<forall>y\<in>set pre. \<not> exactNameMatch domainName y) \<and> exactNameMatch domainName z \<longrightarrow>
            fst (findHostedZoneID e domainName w)
              = Inr (TrimPrefix (ToString (hzId z)) ''/hostedzone/'')"
    unfolding r by (auto simp: find_loop_skip) (simp add: exactNameMatch_def)
  have c: "\<forall>z. hzName z = Some ''example.com.'' \<longrightarrow> exactNameMatch ''example.com'' z"
    by (simp add: exactNameMatch_def ToString_def TrimSuffix_def)
  have d: "\<forall>z. hzName z = Some ''sub.example.com.'' \<or> hzName z = Some ''notexample.com.'' \<longrightarrow>
             \<not> exactNameMatch ''example.com'' z"
    by (auto simp: exactNameMatch_def ToString_def TrimSuffix_def)
  from a b c d show ?thesis by blast
qed

theorem findHostedZoneID_exact_match_witness:
  "fst (findHostedZoneID (zoneEnv [subZone, notZone, registrarZone] [] None) ''example.com'' w0)
     = Inr ''Z1234567890ABC''
   \<and> fst (findHostedZoneID (zoneEnv [subZone, notZone] [] None) ''example.com'' w0)
     = Inl (HostedZoneNotFound ''example.com'')"
proof -
  let ?e1 = "zoneEnv [subZone, notZone, registrarZone] [] None"
  let ?e2 = "zoneEnv [subZone, notZone] [] None"
  have l1: "ListHostedZonesByName_r ?e1 w0 ''example.com'' 1
      = Inr [subZone, notZone, registrarZone]"
    by (simp add: zoneEnv_def)
  have l2: "ListHostedZonesByName_r ?e2 w0 ''example.com'' 1 = Inr [subZone, notZone]"
    by (simp add: zoneEnv_def)
  have no: "\<forall>y\<in>set [subZone, notZone]. \<not> exactNameMatch ''example.com'' y"
    by (simp add: exactNameMatch_def subZone_def notZone_def ToString_def TrimSuffix_def)
  have yes: "exactNameMatch ''example.com'' registrarZone"
    by (simp add: exactNameMatch_def registrarZone_def ToString_def TrimSuffix_def)
  have split: "[subZone, notZone, registrarZone] = [subZone, notZone] @ registrarZone # []"
    by simp
  have id: "TrimPrefix (ToString (hzId registrarZone)) ''/hostedzone/'' = ''Z1234567890ABC''"
    by (simp add: registrarZone_def ToString_def TrimPrefix_def)
  note t1 = findHostedZoneID_exact_match[OF l1]
  note t2 = findHostedZoneID_exact_match[OF l2]
  from t1 split no yes
  have a: "fst (findHostedZoneID ?e1 ''example.com'' w0)
      = Inr (TrimPrefix (ToString (hzId registrarZone)) ''/hostedzone/'')"
    by blast
  from t2 no have b: "fst (findHostedZoneID ?e2 ''example.com'' w0)
      = Inl (HostedZoneNotFound ''example.com'')"
    by blast
  from a b show ?thesis unfolding id by blast
qed

text \<open>
  C9. The lookup asks the listing for one zone (\<open>MaxItems = 1\<close>) and inspects the zones
  of the response only. Over a listing service that answers with the first \<open>MaxItems\<close>
  candidates of the account: when the first candidate is not an exact match, the lookup
  makes that one call and reports that no zone was found, whatever other zones the
  account has, and the guarded deletion stops in the same way.
\<close>

theorem findHostedZoneID_first_candidate_only:
  assumes service: "ListHostedZonesByName_r e = listingService account"
      and first: "\<forall>z\<in>set (take 1 (account domainName)). \<not> exactNameMatch domainName z"
  shows "findHostedZoneID e domainName w =
           (Inl (HostedZoneNotFound domainName),
            record_call e
              (EvListHostedZonesByName domainName 1 (Inr (take 1 (account domainName)))) w)
       \<and> deleteRegistrarHostedZone e domainName w =
           (Some (HostedZoneNotFound domainName),
            record_call e
              (EvListHostedZonesByName domainName 1 (Inr (take 1 (account domainName)))) w)"
proof -
  have l: "ListHostedZonesByName_r e w domainName 1 = Inr (take 1 (account domainName))"
    using service by (simp add: listingService_def)
  have "deleteRegistrarHostedZone_loop e domainName (take 1 (account domainName) @ []) w'
      = (Some (HostedZoneNotFound domainName), w')" for w'
    using first by (subst delete_loop_skip) simp_all
  then show ?thesis using l first
    by (simp add: findHostedZoneID_def deleteRegistrarHostedZone_def
          callListHostedZonesByName_def Let_def find_loop_none)
qed

theorem findHostedZoneID_first_candidate_only_witness:
  "list_ex (exactNameMatch ''example.com'') [subZone, registrarZone]
   \<and> findHostedZoneID accountEnv ''example.com'' w0 =
       (Inl (HostedZoneNotFound ''example.com''),
        \<lparr>clock = 0, history = [EvListHostedZonesByName ''example.com'' 1 (Inr [subZone])]\<rparr>)"
proof -
  have s: "ListHostedZonesByName_r accountEnv = listingService (\<lambda>d. [subZone, registrarZone])"
    by (simp add: accountEnv_def)
  have f: "\<forall>z\<in>set (take 1 ((\<lambda>d. [subZone, registrarZone]) ''example.com'')).
      \<not> exactNameMatch ''example.com'' z"
    by (simp add: exactNameMatch_def subZone_def ToString_def TrimSuffix_def)
  have ex: "list_ex (exactNameMatch ''example.com'') [subZone, registrarZone]"
    by (simp add: exactNameMatch_def registrarZone_def ToString_def TrimSuffix_def)
  have d: "Delay accountEnv w0 = 0"
    by (simp add: accountEnv_def baseEnv_def)
  from findHostedZoneID_first_candidate_only[OF s f, of w0]
  have "findHostedZoneID accountEnv ''example.com'' w0 =
       (Inl (HostedZoneNotFound ''example.com''),
        record_call accountEnv (EvListHostedZonesByName ''example.com'' 1 (Inr [subZone])) w0)"
    by simp
  then show ?thesis using ex d by (simp add: record_call_def w0_def)
qed

section \<open>Read and Delete\<close>

text \<open>
  C8. \<open>Read\<close> removes the resource from the state whenever the domain-detail fetch
  returns an error, whatever the error is: the result does not depend on it, no
  diagnostic is added, and no further call is made.
\<close>

theorem Read_any_error_removes:
  assumes "GetDomainDetail_r e w (DomainName data) = Inl er"
  shows "Read e data w =
           (RemoveResource, record_call e (EvGetDomainDetail (DomainName data) (Inl er)) w)"
  using assms by (simp add: Read_def callGetDomainDetail_def Let_def)

theorem Read_any_error_removes_witness:
  "fst (Read (failingDetailEnv ''ThrottlingException: Rate exceeded'') stored w0) = RemoveResource
   \<and> fst (Read (failingDetailEnv ''InvalidInput: domain not found'') stored w0) = RemoveResource"
proof -
  have a: "GetDomainDetail_r (failingDetailEnv ''ThrottlingException: Rate exceeded'') w0
      (DomainName stored) = Inl ''ThrottlingException: Rate exceeded''"
    by (simp add: failingDetailEnv_def)
  have b: "GetDomainDetail_r (failingDetailEnv ''InvalidInput: domain not found'') w0
      (DomainName stored) = Inl ''InvalidInput: domain not found''"
    by (simp add: failingDetailEnv_def)
  from Read_any_error_removes[OF a] Read_any_error_removes[OF b] show ?thesis by simp
qed

text \<open>
  C7. When deletion is allowed and the domain delete call has succeeded, \<open>Delete\<close>
  runs the guarded zone deletion and adds no error diagnostic, whatever that deletion
  returns: a zone that is not found, a failed safety check and a failed remote delete
  all leave the teardown successful.
\<close>

theorem Delete_zone_failure_not_propagated:
  assumes "AllowDelete data" and "DeleteDomain_r e w (DomainName data) = None"
  shows "Delete e data w =
           ([], snd (deleteRegistrarHostedZone e (DomainName data)
                       (record_call e (EvDeleteDomain (DomainName data) None) w)))"
  using assms by (simp add: Delete_def callDeleteDomain_def Let_def split: prod.splits)

theorem Delete_zone_failure_not_propagated_witness:
  "fst (deleteRegistrarHostedZone
          (zoneEnv [registrarZone] [nsRecord, soaRecord] (Some ''AccessDenied'')) ''example.com''
          (record_call (zoneEnv [registrarZone] [nsRecord, soaRecord] (Some ''AccessDenied''))
             (EvDeleteDomain ''example.com'' None) w0))
     = Some (FailedToDeleteHostedZone ''AccessDenied'')
   \<and> fst (Delete (zoneEnv [registrarZone] [nsRecord, soaRecord] (Some ''AccessDenied''))
            (stored\<lparr>AllowDelete := True\<rparr>) w0) = []
   \<and> fst (Delete (zoneEnv [privateZone] [] None) (stored\<lparr>AllowDelete := True\<rparr>) w0) = []
   \<and> fst (Delete (zoneEnv [] [] None) (stored\<lparr>AllowDelete := True\<rparr>) w0) = []"
proof -
  let ?d = "stored\<lparr>AllowDelete := True\<rparr>"
  have n: "DomainName ?d = ''example.com''" by (simp add: stored_def)
  have al: "AllowDelete ?d" by simp
  have ok: "DeleteDomain_r (zoneEnv zs rs del) w0 (DomainName ?d) = None" for zs rs del
    by (simp add: zoneEnv_def baseEnv_def)
  have z: "fst (deleteRegistrarHostedZone
          (zoneEnv [registrarZone] [nsRecord, soaRecord] (Some ''AccessDenied'')) ''example.com''
          (record_call (zoneEnv [registrarZone] [nsRecord, soaRecord] (Some ''AccessDenied''))
             (EvDeleteDomain ''example.com'' None) w0))
     = Some (FailedToDeleteHostedZone ''AccessDenied'')"
    by code_simp
  from Delete_zone_failure_not_propagated[OF al ok]
  have "fst (Delete (zoneEnv zs rs del) ?d w0) = []" for zs rs del
    by simp
  with z show ?thesis by blast
qed

text \<open>
  C10. With the allow-delete flag false, \<open>Delete\<close> makes no remote call: the world is
  left as it was, with no event added to the history, and no diagnostic is returned, so
  that only the entry of the local state goes away.
\<close>

theorem Delete_not_allowed_no_call:
  assumes "\<not> AllowDelete data"
  shows "Delete e data w = ([], w)"
  using assms by (simp add: Delete_def)

theorem Delete_not_allowed_no_call_witness:
  "\<not> AllowDelete stored
   \<and> Delete (zoneEnv [registrarZone] [nsRecord, soaRecord] None) stored w0 = ([], w0)"
proof -
  have a: "\<not> AllowDelete stored" by (simp add: stored_def request_def)
  from a Delete_not_allowed_no_call[OF a] show ?thesis by blast
qed


section \<open>Create\<close>

lemma status_cases:
  "s \<noteq> SUCCESSFUL \<Longrightarrow> s \<noteq> FAILED \<Longrightarrow> s \<noteq> ERROR \<Longrightarrow> s = PENDING \<or> s = IN_PROGRESS"
  by (cases s) auto

lemma pollRun_step:
  assumes "pollRun opid es" and "odStatus d = PENDING \<or> odStatus d = IN_PROGRESS"
  shows "pollRun opid (EvGetOperationDetail opid (Inr d) # EvSleep t # es)"
  using assms by (cases es) (auto simp: pollRun_def)

lemma verdictOf_step:
  "verdictOf (EvGetOperationDetail opid (Inr d) # EvSleep t # es) = verdictOf es"
  by (simp add: verdictOf_def)

text \<open>
  The trace of the polling loop: its events, its result as a function of the last
  event, and the clock when every poll of the loop had a non-terminal answer.
\<close>

lemma pollLoop_events:
  "\<exists>es. history (snd (pollLoop e opid dl w)) = history w @ es \<and> pollRun opid es \<and>
        fst (pollLoop e opid dl w) = verdictOf es \<and>
        ((\<forall>ev\<in>set es. isPoll ev \<longrightarrow> nonTerminalPoll ev) \<longrightarrow>
           dl \<le> clock (snd (pollLoop e opid dl w)))"
proof (induction e opid dl w rule: pollLoop.induct)
  case (1 e opid dl w)
  let ?r = "GetOperationDetail_r e w opid"
  let ?w1 = "record_call e (EvGetOperationDetail opid ?r) w"
  show ?case
  proof (cases "clock w < dl")
    case False
    then have "pollLoop e opid dl w = (None, w)"
      by (simp add: pollLoop.simps[of e opid dl w])
    with False show ?thesis by (simp add: pollRun_def verdictOf_def)
  next
    case True
    show ?thesis
    proof (cases ?r)
      case (Inl er)
      with True have "pollLoop e opid dl w = (Some (ErrorCheckingRegistrationStatus er), ?w1)"
        by (simp add: pollLoop.simps[of e opid dl w] callGetOperationDetail_def Let_def)
      then show ?thesis
        by (intro exI[of _ "[EvGetOperationDetail opid ?r]"])
           (simp add: pollRun_def verdictOf_def Inl)
    next
      case (Inr d)
      show ?thesis
      proof (cases "odStatus d = SUCCESSFUL \<or> odStatus d = FAILED \<or> odStatus d = ERROR")
        case fin: True
        with True Inr
        have "pollLoop e opid dl w = (pollVerdict (EvGetOperationDetail opid ?r), ?w1)"
          by (auto simp: pollLoop.simps[of e opid dl w] callGetOperationDetail_def Let_def)
        then show ?thesis using fin Inr
          by (intro exI[of _ "[EvGetOperationDetail opid ?r]"])
             (auto simp: pollRun_def verdictOf_def)
      next
        case nonterm: False
        then have st: "odStatus d = PENDING \<or> odStatus d = IN_PROGRESS"
          using status_cases by blast
        from True Inr nonterm
        have eq: "pollLoop e opid dl w = pollLoop e opid dl (Sleep e 10000000000 ?w1)"
          by (simp add: pollLoop.simps[of e opid dl w] callGetOperationDetail_def Let_def)
        from "1.IH"[of "Inr d" ?w1 d] True Inr nonterm
        obtain es where es: "history (snd (pollLoop e opid dl (Sleep e 10000000000 ?w1)))
              = history (Sleep e 10000000000 ?w1) @ es" "pollRun opid es"
            "fst (pollLoop e opid dl (Sleep e 10000000000 ?w1)) = verdictOf es"
            "(\<forall>ev\<in>set es. isPoll ev \<longrightarrow> nonTerminalPoll ev) \<longrightarrow>
               dl \<le> clock (snd (pollLoop e opid dl (Sleep e 10000000000 ?w1)))"
          by (auto simp: callGetOperationDetail_def Let_def)
        show ?thesis
          apply (rule exI[of _ "EvGetOperationDetail opid (Inr d) # EvSleep 10000000000 # es"])
          using es st Inr by (simp add: eq pollRun_step verdictOf_step)
      qed
    qed
  qed
qed

lemma Create_hostedZone_history:
  "\<exists>es. history (snd (Create_hostedZone e data w)) = history w @ es
        \<and> (\<forall>ev\<in>set es. zoneEvent ev)"
proof (cases "DeleteHostedZone data")
  case False
  then have "snd (Create_hostedZone e data w) = snd (findHostedZoneID e (DomainName data) w)"
    by (simp add: Create_hostedZone_def Let_def split: prod.splits sum.splits)
  then show ?thesis by (simp add: snd_findHostedZoneID)
next
  case True
  obtain r w1 where del: "deleteRegistrarHostedZone e (DomainName data) w = (r, w1)"
    by (cases "deleteRegistrarHostedZone e (DomainName data) w")
  from deleteRegistrarHostedZone_history[of e "DomainName data" w] del
  obtain es where es: "history w1 = history w @ es" "\<forall>ev\<in>set es. zoneEvent ev" by auto
  show ?thesis
  proof (cases r)
    case None
    with True del have "snd (Create_hostedZone e data w) = w1"
      by (simp add: Create_hostedZone_def Let_def)
    with es show ?thesis by auto
  next
    case (Some er)
    with True del have "snd (Create_hostedZone e data w) = snd (findHostedZoneID e (DomainName data) w1)"
      by (simp add: Create_hostedZone_def Let_def split: prod.splits sum.splits)
    with es show ?thesis
      by (intro exI[of _ "es @ [EvListHostedZonesByName (DomainName data) 1
            (ListHostedZonesByName_r e w1 (DomainName data) 1)]"])
         (simp add: snd_findHostedZoneID)
  qed
qed

lemma Create_afterPolling_events:
  "\<exists>es. history (snd (Create_afterPolling e data w)) = history w @ es
        \<and> afterShape data (fst (Create_afterPolling e data w)) es"
proof -
  let ?d = "DomainName data" and ?ns = "Nameservers data"
  let ?nr = "UpdateDomainNameservers_r e w ?d ?ns"
  let ?w1 = "if ?ns = [] then w else record_call e (EvUpdateDomainNameservers ?d ?ns ?nr) w"
  show ?thesis
  proof (cases "?ns \<noteq> [] \<and> ?nr \<noteq> None")
    case True
    then obtain er where er: "?nr = Some er" by auto
    with True have "Create_afterPolling e data w =
        (Failed (ErrorUpdatingNameservers er), record_call e (EvUpdateDomainNameservers ?d ?ns (Some er)) w)"
      by (simp add: Create_afterPolling_def callUpdateDomainNameservers_def Let_def)
    with True show ?thesis by (simp add: afterShape_def)
  next
    case False
    let ?pre = "if ?ns = [] then [] else [EvUpdateDomainNameservers ?d ?ns None]"
    have w1: "history ?w1 = history w @ ?pre" using False by auto
    show ?thesis
    proof (cases "GetDomainDetail_r e ?w1 ?d")
      case (Inl er)
      with False have "Create_afterPolling e data w =
        (Failed (ErrorReadingDomainDetails er), record_call e (EvGetDomainDetail ?d (Inl er)) ?w1)"
        by (auto simp: Create_afterPolling_def callUpdateDomainNameservers_def
              callGetDomainDetail_def Let_def)
      with w1 show ?thesis
        by (intro exI[of _ "?pre @ [EvGetDomainDetail ?d (Inl er)]"]) (simp add: afterShape_def)
    next
      case (Inr dd)
      let ?w2 = "record_call e (EvGetDomainDetail ?d (Inr dd)) ?w1"
      obtain data' w3 where hz: "Create_hostedZone e (setComputed dd data) ?w2 = (data', w3)"
        by (cases "Create_hostedZone e (setComputed dd data) ?w2")
      from Create_hostedZone_history[of e "setComputed dd data" ?w2] hz
      obtain zs where zs: "history w3 = history ?w2 @ zs" "\<forall>ev\<in>set zs. zoneEvent ev" by auto
      from False Inr hz have "Create_afterPolling e data w = (Done data', w3)"
        by (auto simp: Create_afterPolling_def callUpdateDomainNameservers_def
              callGetDomainDetail_def Let_def)
      with w1 zs show ?thesis
        by (intro exI[of _ "?pre @ EvGetDomainDetail ?d (Inr dd) # zs"]) (simp add: afterShape_def)
    qed
  qed
qed

lemma Create_events:
  "createShape data (fst (Create e data w)) (newEvents w (snd (Create e data w)))"
proof (cases "RegisterDomain_r e w (registerInput data)")
  case (Inl er)
  then show ?thesis
    by (simp add: Create_def callRegisterDomain_def Let_def createShape_def)
next
  case (Inr opid)
  let ?w1 = "record_call e (EvRegisterDomain (registerInput data) (Inr opid)) w"
  let ?dl = "clock ?w1 + timeoutDuration data"
  obtain v w2 where pl: "pollLoop e opid ?dl ?w1 = (v, w2)"
    by (cases "pollLoop e opid ?dl ?w1")
  from pollLoop_events[of e opid ?dl ?w1] pl
  obtain ps where ps: "history w2 = history ?w1 @ ps" "pollRun opid ps" "v = verdictOf ps"
    by auto
  show ?thesis
  proof (cases v)
    case (Some d)
    with Inr pl have "Create e data w = (Failed d, w2)"
      by (simp add: Create_def callRegisterDomain_def Let_def)
    moreover have "newEvents w w2 = EvRegisterDomain (registerInput data) (Inr opid) # ps @ []"
      using ps by (simp add: newEvents_def)
    moreover have "verdictOf ps = Some d" using ps Some by simp
    ultimately show ?thesis using ps(2) unfolding createShape_def
      by (intro disjI2 exI[of _ opid] exI[of _ ps] exI[of _ "[]"]) simp
  next
    case None
    with Inr pl have c: "Create e data w = Create_afterPolling e data w2"
      by (simp add: Create_def callRegisterDomain_def Let_def)
    from Create_afterPolling_events[of e data w2]
    obtain qs where qs: "history (snd (Create_afterPolling e data w2)) = history w2 @ qs"
        "afterShape data (fst (Create_afterPolling e data w2)) qs" by blast
    have "newEvents w (snd (Create e data w)) = EvRegisterDomain (registerInput data) (Inr opid) # ps @ qs"
      using ps qs c by (simp add: newEvents_def)
    moreover have "verdictOf ps = None" using ps None by simp
    ultimately show ?thesis using ps(2) qs(2) c unfolding createShape_def
      by (intro disjI2 exI[of _ opid] exI[of _ ps] exI[of _ qs]) simp
  qed
qed


lemma afterShape_kinds:
  "afterShape data r qs \<Longrightarrow> ev \<in> set qs \<Longrightarrow>
     isUpdateDomainNameservers ev \<or> isGetDomainDetail ev \<or> zoneEvent ev"
  by (auto simp: afterShape_def Let_def split: if_splits)

lemma afterShape_no_poll:
  assumes "afterShape data r qs" and "ev \<in> set qs"
  shows "\<not> isPoll ev \<and> \<not> isRegisterDomain ev"
  using afterShape_kinds[OF assms] by (cases ev) auto

lemma pollRun_rejected:
  assumes "pollRun opid' ps" and "EvGetOperationDetail opid (Inr d) \<in> set ps"
      and "odStatus d = FAILED \<or> odStatus d = ERROR"
  shows "ps \<noteq> [] \<and> last ps = EvGetOperationDetail opid (Inr d)"
proof -
  have "EvGetOperationDetail opid (Inr d) \<notin> set (butlast ps)"
    using assms(1,3) by (auto simp: pollRun_def)
  with assms(2) show ?thesis by (rule in_set_not_butlast)
qed

lemma pollRun_only_polls:
  "pollRun opid ps \<Longrightarrow> ev \<in> set ps \<Longrightarrow>
     \<not> isUpdateDomainNameservers ev \<and> \<not> isGetDomainDetail ev \<and> \<not> isRegisterDomain ev \<and> \<not> zoneEvent ev"
  by (cases ev) (auto simp: pollRun_def)


text \<open>The clock never runs backwards.\<close>

lemma clock_record_call: "clock w \<le> clock (record_call e ev w)"
  by (simp add: record_call_def)

lemma clock_deleteMatchedZone: "clock w \<le> clock (snd (deleteMatchedZone e zone w))"
  by (simp add: deleteMatchedZone_cases Let_def record_call_def split: sum.splits option.splits)

lemma clock_deleteLoop: "clock w \<le> clock (snd (deleteRegistrarHostedZone_loop e d zs w))"
  by (induction zs) (simp_all add: Let_def clock_deleteMatchedZone)

lemma clock_deleteRegistrarHostedZone:
  "clock w \<le> clock (snd (deleteRegistrarHostedZone e d w))"
proof (cases "ListHostedZonesByName_r e w d 1")
  case (Inl er)
  then show ?thesis
    by (simp add: deleteRegistrarHostedZone_def callListHostedZonesByName_def Let_def
          record_call_def)
next
  case (Inr zs)
  let ?w1 = "record_call e (EvListHostedZonesByName d 1 (Inr zs)) w"
  have "clock w \<le> clock ?w1" by (rule clock_record_call)
  also have "\<dots> \<le> clock (snd (deleteRegistrarHostedZone_loop e d zs ?w1))"
    by (rule clock_deleteLoop)
  finally show ?thesis using Inr
    by (simp add: deleteRegistrarHostedZone_def callListHostedZonesByName_def Let_def)
qed

lemma clock_findHostedZoneID: "clock w \<le> clock (snd (findHostedZoneID e d w))"
  by (simp add: snd_findHostedZoneID clock_record_call)

lemma clock_Create_hostedZone: "clock w \<le> clock (snd (Create_hostedZone e data w))"
proof (cases "DeleteHostedZone data")
  case False
  then have "snd (Create_hostedZone e data w) = snd (findHostedZoneID e (DomainName data) w)"
    by (simp add: Create_hostedZone_def Let_def split: prod.splits sum.splits)
  then show ?thesis by (simp add: clock_findHostedZoneID)
next
  case True
  obtain r w1 where del: "deleteRegistrarHostedZone e (DomainName data) w = (r, w1)"
    by (cases "deleteRegistrarHostedZone e (DomainName data) w")
  from clock_deleteRegistrarHostedZone[of w e "DomainName data"] del
  have c1: "clock w \<le> clock w1" by simp
  show ?thesis
  proof (cases r)
    case None
    with True del have "snd (Create_hostedZone e data w) = w1"
      by (simp add: Create_hostedZone_def Let_def)
    with c1 show ?thesis by simp
  next
    case (Some er)
    with True del
    have "snd (Create_hostedZone e data w) = snd (findHostedZoneID e (DomainName data) w1)"
      by (simp add: Create_hostedZone_def Let_def split: prod.splits sum.splits)
    with c1 clock_findHostedZoneID[of w1 e "DomainName data"] show ?thesis by simp
  qed
qed

lemma clock_Create_afterPolling: "clock w \<le> clock (snd (Create_afterPolling e data w))"
proof -
  let ?d = "DomainName data" and ?ns = "Nameservers data"
  let ?nr = "UpdateDomainNameservers_r e w ?d ?ns"
  let ?w1 = "if ?ns = [] then w else record_call e (EvUpdateDomainNameservers ?d ?ns ?nr) w"
  have c1: "clock w \<le> clock ?w1" by (simp add: clock_record_call)
  show ?thesis
  proof (cases "?ns \<noteq> [] \<and> ?nr \<noteq> None")
    case True
    then obtain er where er: "?nr = Some er" by auto
    with True have "snd (Create_afterPolling e data w) = ?w1"
      by (simp add: Create_afterPolling_def callUpdateDomainNameservers_def Let_def)
    with c1 show ?thesis by simp
  next
    case False
    show ?thesis
    proof (cases "GetDomainDetail_r e ?w1 ?d")
      case (Inl er)
      with False have "snd (Create_afterPolling e data w)
          = record_call e (EvGetDomainDetail ?d (Inl er)) ?w1"
        by (auto simp: Create_afterPolling_def callUpdateDomainNameservers_def
              callGetDomainDetail_def Let_def)
      with c1 clock_record_call[of ?w1 e "EvGetDomainDetail ?d (Inl er)"] show ?thesis
        by simp
    next
      case (Inr dd)
      let ?w2 = "record_call e (EvGetDomainDetail ?d (Inr dd)) ?w1"
      from False Inr have "snd (Create_afterPolling e data w)
          = snd (Create_hostedZone e (setComputed dd data) ?w2)"
        by (auto simp: Create_afterPolling_def callUpdateDomainNameservers_def
              callGetDomainDetail_def Let_def split: prod.splits)
      with c1 clock_record_call[of ?w1 e "EvGetDomainDetail ?d (Inr dd)"]
        clock_Create_hostedZone[of ?w2 e "setComputed dd data"] show ?thesis
        by simp
    qed
  qed
qed

lemma pollRun_quiet_verdict:
  assumes "pollRun opid ps" and "\<forall>ev\<in>set ps. isPoll ev \<longrightarrow> nonTerminalPoll ev"
  shows "verdictOf ps = None"
proof (cases "ps = []")
  case True
  then show ?thesis by (simp add: verdictOf_def)
next
  case False
  then have l: "last ps \<in> set ps" by simp
  with assms(1) have "(\<exists>r. last ps = EvGetOperationDetail opid r) \<or> isSleep (last ps)"
    by (simp add: pollRun_def)
  moreover from l assms(2) have "isPoll (last ps) \<longrightarrow> nonTerminalPoll (last ps)" by blast
  ultimately have "pollVerdict (last ps) = None"
    by (cases "last ps" rule: pollVerdict.cases) auto
  with False show ?thesis by (simp add: verdictOf_def)
qed


text \<open>
  C1 fails on the code. The registration below never leaves \<open>IN_PROGRESS\<close>; the
  timeout is 30 seconds. \<open>Create\<close> polls at 0, 10 and 20 seconds, finds the deadline
  reached at 30 seconds, and goes on: it updates the nameservers, fetches the domain
  detail, looks the hosted zone up and returns the new state.
\<close>

theorem Create_timeout_counterexample:
  "Create stuckEnv request w0 =
     (Done (request\<lparr>ID := Some ''test-domain.example'',
                    Status := Some ''clientTransferProhibited'',
                    ExpirationDate := Some ''2027-11-03T00:00:00Z'',
                    CreationDate := Some ''2026-11-03T00:00:00Z''\<rparr>),
      \<lparr>clock = 30000000000,
       history =
         [EvRegisterDomain (registerInput request) (Inr ''op-1''),
          EvGetOperationDetail ''op-1'' (Inr \<lparr>odStatus = IN_PROGRESS, odMessage = None\<rparr>),
          EvSleep 10000000000,
          EvGetOperationDetail ''op-1'' (Inr \<lparr>odStatus = IN_PROGRESS, odMessage = None\<rparr>),
          EvSleep 10000000000,
          EvGetOperationDetail ''op-1'' (Inr \<lparr>odStatus = IN_PROGRESS, odMessage = None\<rparr>),
          EvSleep 10000000000,
          EvUpdateDomainNameservers ''test-domain.example'' [''ns1.example.net''] None,
          EvGetDomainDetail ''test-domain.example'' (Inr okDetail),
          EvListHostedZonesByName ''test-domain.example'' 1 (Inr [])]\<rparr>)"
  by code_simp

text \<open>
  C1 as amended. When the registration was submitted and every poll of the run
  answered with a non-terminal status, \<open>Create\<close> returns after the deadline has passed
  and reports no timeout: it has gone on to the nameserver update (when nameservers are
  given) and, unless that update failed, to the domain-detail fetch. It fails only with
  the error of one of these two calls, and returns the new state when the fetch
  succeeded.
\<close>

theorem Create_nonterminal_until_deadline:
  assumes submitted: "EvRegisterDomain (registerInput data) (Inr opid)
                        \<in> set (newEvents w (snd (Create e data w)))"
      and quiet: "\<forall>ev\<in>set (newEvents w (snd (Create e data w))).
                    isPoll ev \<longrightarrow> nonTerminalPoll ev"
  shows "clock w + timeoutDuration data \<le> clock (snd (Create e data w))
       \<and> (Nameservers data \<noteq> [] \<longrightarrow>
            (\<exists>x. EvUpdateDomainNameservers (DomainName data) (Nameservers data) x
                   \<in> set (newEvents w (snd (Create e data w)))))
       \<and> ((\<exists>er. fst (Create e data w) = Failed (ErrorUpdatingNameservers er)
                \<and> last (newEvents w (snd (Create e data w)))
                    = EvUpdateDomainNameservers (DomainName data) (Nameservers data) (Some er))
          \<or> (\<exists>er. fst (Create e data w) = Failed (ErrorReadingDomainDetails er)
                \<and> last (newEvents w (snd (Create e data w)))
                    = EvGetDomainDetail (DomainName data) (Inl er))
          \<or> (\<exists>data' dd. fst (Create e data w) = Done data'
                \<and> EvGetDomainDetail (DomainName data) (Inr dd)
                    \<in> set (newEvents w (snd (Create e data w)))))"
proof (cases "RegisterDomain_r e w (registerInput data)")
  case (Inl er)
  then have "newEvents w (snd (Create e data w)) = [EvRegisterDomain (registerInput data) (Inl er)]"
    by (simp add: Create_def callRegisterDomain_def Let_def)
  with submitted show ?thesis by simp
next
  case (Inr op)
  let ?reg = "EvRegisterDomain (registerInput data) (Inr op)"
  let ?w1 = "record_call e ?reg w"
  let ?dl = "clock ?w1 + timeoutDuration data"
  obtain v w2 where pl: "pollLoop e op ?dl ?w1 = (v, w2)"
    by (cases "pollLoop e op ?dl ?w1")
  from pollLoop_events[of e op ?dl ?w1] pl
  obtain ps where ps: "history w2 = history ?w1 @ ps" "pollRun op ps" "v = verdictOf ps"
      "(\<forall>ev\<in>set ps. isPoll ev \<longrightarrow> nonTerminalPoll ev) \<longrightarrow> ?dl \<le> clock w2"
    by auto
  have sub: "set ps \<subseteq> set (newEvents w (snd (Create e data w)))"
  proof (cases v)
    case (Some c)
    with Inr pl have "Create e data w = (Failed c, w2)"
      by (simp add: Create_def callRegisterDomain_def Let_def)
    with ps(1) show ?thesis by (auto simp: newEvents_def)
  next
    case None
    with Inr pl have c: "Create e data w = Create_afterPolling e data w2"
      by (simp add: Create_def callRegisterDomain_def Let_def)
    from Create_afterPolling_events[of e data w2] obtain qs where
      "history (snd (Create_afterPolling e data w2)) = history w2 @ qs" by blast
    with ps(1) c show ?thesis by (auto simp: newEvents_def)
  qed
  with quiet have q: "\<forall>ev\<in>set ps. isPoll ev \<longrightarrow> nonTerminalPoll ev" by blast
  with ps(2) have "verdictOf ps = None" by (rule pollRun_quiet_verdict)
  with ps(3) have v: "v = None" by simp
  with Inr pl have c: "Create e data w = Create_afterPolling e data w2"
    by (simp add: Create_def callRegisterDomain_def Let_def)
  from Create_afterPolling_events[of e data w2] obtain qs where
    qs: "history (snd (Create_afterPolling e data w2)) = history w2 @ qs"
        "afterShape data (fst (Create_afterPolling e data w2)) qs" by blast
  have es: "newEvents w (snd (Create e data w)) = ?reg # ps @ qs"
    using ps(1) qs(1) c by (simp add: newEvents_def)
  have "clock w \<le> clock ?w1" by (rule clock_record_call)
  moreover from q ps(4) have "?dl \<le> clock w2" by blast
  moreover have "clock w2 \<le> clock (snd (Create e data w))"
    unfolding c by (rule clock_Create_afterPolling)
  ultimately have time: "clock w + timeoutDuration data \<le> clock (snd (Create e data w))"
    by simp
  from qs(2) have rest:
    "(Nameservers data \<noteq> [] \<longrightarrow>
        (\<exists>x. EvUpdateDomainNameservers (DomainName data) (Nameservers data) x \<in> set qs))
     \<and> ((\<exists>er. fst (Create e data w) = Failed (ErrorUpdatingNameservers er)
            \<and> qs \<noteq> [] \<and> last qs
                = EvUpdateDomainNameservers (DomainName data) (Nameservers data) (Some er))
        \<or> (\<exists>er. fst (Create e data w) = Failed (ErrorReadingDomainDetails er)
            \<and> qs \<noteq> [] \<and> last qs = EvGetDomainDetail (DomainName data) (Inl er))
        \<or> (\<exists>data' dd. fst (Create e data w) = Done data'
            \<and> EvGetDomainDetail (DomainName data) (Inr dd) \<in> set qs))"
    unfolding c afterShape_def Let_def by (auto split: if_splits)
  have l: "qs \<noteq> [] \<Longrightarrow> last (?reg # ps @ qs) = last qs" by simp
  from time rest show ?thesis unfolding es using l by auto
qed

theorem Create_nonterminal_until_deadline_witness:
  "EvRegisterDomain (registerInput request) (Inr ''op-1'')
     \<in> set (newEvents w0 (snd (Create stuckEnv request w0)))
   \<and> list_all (\<lambda>ev. isPoll ev \<longrightarrow> nonTerminalPoll ev)
         (newEvents w0 (snd (Create stuckEnv request w0)))
   \<and> clock w0 + timeoutDuration request \<le> clock (snd (Create stuckEnv request w0))
   \<and> (\<exists>x. EvUpdateDomainNameservers ''test-domain.example'' [''ns1.example.net''] x
            \<in> set (newEvents w0 (snd (Create stuckEnv request w0))))
   \<and> fst (Create stuckEnv request w0)
       = Done (request\<lparr>ID := Some ''test-domain.example'',
                  Status := Some ''clientTransferProhibited'',
                  ExpirationDate := Some ''2027-11-03T00:00:00Z'',
                  CreationDate := Some ''2026-11-03T00:00:00Z''\<rparr>)"
proof -
  have h1: "EvRegisterDomain (registerInput request) (Inr ''op-1'')
      \<in> set (newEvents w0 (snd (Create stuckEnv request w0)))"
    by code_simp
  have h2: "\<forall>ev\<in>set (newEvents w0 (snd (Create stuckEnv request w0))).
      isPoll ev \<longrightarrow> nonTerminalPoll ev"
    by code_simp
  have n: "Nameservers request \<noteq> []" "Nameservers request = [''ns1.example.net'']"
      "DomainName request = ''test-domain.example''"
    by (simp_all add: request_def)
  have d: "fst (Create stuckEnv request w0)
       = Done (request\<lparr>ID := Some ''test-domain.example'',
                  Status := Some ''clientTransferProhibited'',
                  ExpirationDate := Some ''2027-11-03T00:00:00Z'',
                  CreationDate := Some ''2026-11-03T00:00:00Z''\<rparr>)"
    by code_simp
  from Create_nonterminal_until_deadline[OF h1 h2] n h1 h2 d show ?thesis
    by (auto simp: list_all_iff)
qed

text \<open>
  C5. When a poll of the run answers \<open>FAILED\<close> or \<open>ERROR\<close>, \<open>Create\<close> returns the
  registration failure (or registration error) diagnostic with the message of that
  answer, that poll is the last call of the run, and the run contains no
  \<open>UpdateDomainNameservers\<close> and no \<open>GetDomainDetail\<close> call.
\<close>

theorem Create_rejected:
  assumes bad: "EvGetOperationDetail opid (Inr d) \<in> set (newEvents w (snd (Create e data w)))"
      and st: "odStatus d = FAILED \<or> odStatus d = ERROR"
  shows "fst (Create e data w) =
           Failed (if odStatus d = FAILED then DomainRegistrationFailed (ToString (odMessage d))
                   else DomainRegistrationError (ToString (odMessage d)))
         \<and> last (newEvents w (snd (Create e data w))) = EvGetOperationDetail opid (Inr d)
         \<and> (\<forall>ev\<in>set (newEvents w (snd (Create e data w))).
               \<not> isUpdateDomainNameservers ev \<and> \<not> isGetDomainDetail ev)"
proof -
  let ?es = "newEvents w (snd (Create e data w))" and ?r = "fst (Create e data w)"
  let ?p = "EvGetOperationDetail opid (Inr d)"
  have shape: "createShape data ?r ?es" by (rule Create_events)
  from bad shape obtain op ps qs where
      es: "?es = EvRegisterDomain (registerInput data) (Inr op) # ps @ qs"
      and run: "pollRun op ps"
      and alt: "(\<exists>c. verdictOf ps = Some c \<and> ?r = Failed c \<and> qs = [])
                \<or> (verdictOf ps = None \<and> afterShape data ?r qs)"
    unfolding createShape_def by auto
  have "?p \<notin> set qs"
  proof
    assume "?p \<in> set qs"
    moreover from this alt have "afterShape data ?r qs" by auto
    ultimately show False using afterShape_no_poll[of data ?r qs ?p] by simp
  qed
  with bad es have "?p \<in> set ps" by auto
  with run st have l: "ps \<noteq> []" "last ps = ?p" using pollRun_rejected by blast+
  then have v: "verdictOf ps = Some (if odStatus d = FAILED
        then DomainRegistrationFailed (ToString (odMessage d))
        else DomainRegistrationError (ToString (odMessage d)))"
    using st by (auto simp: verdictOf_def)
  with alt have r: "?r = Failed (if odStatus d = FAILED
        then DomainRegistrationFailed (ToString (odMessage d))
        else DomainRegistrationError (ToString (odMessage d)))" and q: "qs = []"
    by auto
  from es q l have "last ?es = ?p" by simp
  moreover have "\<forall>ev\<in>set ?es. \<not> isUpdateDomainNameservers ev \<and> \<not> isGetDomainDetail ev"
    using es q pollRun_only_polls[OF run] by auto
  ultimately show ?thesis using r by blast
qed

theorem Create_rejected_witness:
  "EvGetOperationDetail ''op-1''
       (Inr \<lparr>odStatus = FAILED, odMessage = Some ''Domain is not available''\<rparr>)
     \<in> set (newEvents w0 (snd (Create rejectingEnv request w0)))
   \<and> fst (Create rejectingEnv request w0)
       = Failed (DomainRegistrationFailed ''Domain is not available'')
   \<and> last (newEvents w0 (snd (Create rejectingEnv request w0)))
       = EvGetOperationDetail ''op-1''
           (Inr \<lparr>odStatus = FAILED, odMessage = Some ''Domain is not available''\<rparr>)
   \<and> list_all (\<lambda>ev. \<not> isUpdateDomainNameservers ev \<and> \<not> isGetDomainDetail ev)
         (newEvents w0 (snd (Create rejectingEnv request w0)))"
proof -
  let ?d = "\<lparr>odStatus = FAILED, odMessage = Some ''Domain is not available''\<rparr>"
  have h1: "EvGetOperationDetail ''op-1'' (Inr ?d)
      \<in> set (newEvents w0 (snd (Create rejectingEnv request w0)))"
    by code_simp
  have h2: "odStatus ?d = FAILED \<or> odStatus ?d = ERROR" by simp
  from Create_rejected[OF h1 h2] h1 show ?thesis by (simp add: ToString_def list_all_iff)
qed

text \<open>
  C6. When the \<open>UpdateDomainNameservers\<close> call of the run fails, \<open>Create\<close> returns the
  nameserver-update diagnostic with the error of the call, which is none of the
  registration diagnostics; the nameserver list of the request is not empty; the failed
  call is the last call of the run, so that no \<open>GetDomainDetail\<close> call follows; and the
  run contains exactly one \<open>RegisterDomain\<close> call.
\<close>

theorem Create_nameserver_failure:
  assumes bad: "EvUpdateDomainNameservers d ns (Some er) \<in> set (newEvents w (snd (Create e data w)))"
  shows "fst (Create e data w) = Failed (ErrorUpdatingNameservers er)
         \<and> Nameservers data \<noteq> []
         \<and> last (newEvents w (snd (Create e data w))) = EvUpdateDomainNameservers d ns (Some er)
         \<and> (\<forall>ev\<in>set (newEvents w (snd (Create e data w))). \<not> isGetDomainDetail ev)
         \<and> length (filter isRegisterDomain (newEvents w (snd (Create e data w)))) = 1
         \<and> (\<forall>m. fst (Create e data w) \<noteq> Failed (ErrorRegisteringDomain m)
                \<and> fst (Create e data w) \<noteq> Failed (DomainRegistrationFailed m)
                \<and> fst (Create e data w) \<noteq> Failed (DomainRegistrationError m))"
proof -
  let ?es = "newEvents w (snd (Create e data w))" and ?r = "fst (Create e data w)"
  let ?u = "EvUpdateDomainNameservers d ns (Some er)"
  have shape: "createShape data ?r ?es" by (rule Create_events)
  from bad shape obtain op ps qs where
      es: "?es = EvRegisterDomain (registerInput data) (Inr op) # ps @ qs"
      and run: "pollRun op ps"
      and alt: "(\<exists>c. verdictOf ps = Some c \<and> ?r = Failed c \<and> qs = [])
                \<or> (verdictOf ps = None \<and> afterShape data ?r qs)"
    unfolding createShape_def by auto
  have nps: "?u \<notin> set ps" using pollRun_only_polls[OF run, of ?u] by auto
  with bad es have inq: "?u \<in> set qs" by auto
  with alt have after: "afterShape data ?r qs" by auto
  from after inq have q: "qs = [?u]" and r: "?r = Failed (ErrorUpdatingNameservers er)"
      and n: "Nameservers data \<noteq> []"
    by (auto simp: afterShape_def Let_def split: if_splits dest: zoneEvents_no_update)
  have f: "filter isRegisterDomain ps = []"
    using pollRun_only_polls[OF run] by (auto simp: filter_empty_conv)
  from es q have "last ?es = ?u" by simp
  moreover have "\<forall>ev\<in>set ?es. \<not> isGetDomainDetail ev"
    using es q pollRun_only_polls[OF run] by auto
  moreover have "length (filter isRegisterDomain ?es) = 1"
    using es q f by simp
  moreover have "\<forall>m. ?r \<noteq> Failed (ErrorRegisteringDomain m)
      \<and> ?r \<noteq> Failed (DomainRegistrationFailed m) \<and> ?r \<noteq> Failed (DomainRegistrationError m)"
    using r by simp
  ultimately show ?thesis using r n by blast
qed

theorem Create_nameserver_failure_witness:
  "EvGetOperationDetail ''op-1'' (Inr \<lparr>odStatus = SUCCESSFUL, odMessage = None\<rparr>)
     \<in> set (newEvents w0 (snd (Create nameserverFailEnv request w0)))
   \<and> EvUpdateDomainNameservers ''test-domain.example'' [''ns1.example.net'']
       (Some ''InvalidInput: nameserver'')
     \<in> set (newEvents w0 (snd (Create nameserverFailEnv request w0)))
   \<and> fst (Create nameserverFailEnv request w0)
       = Failed (ErrorUpdatingNameservers ''InvalidInput: nameserver'')
   \<and> list_all (\<lambda>ev. \<not> isGetDomainDetail ev)
         (newEvents w0 (snd (Create nameserverFailEnv request w0)))
   \<and> length (filter isRegisterDomain (newEvents w0 (snd (Create nameserverFailEnv request w0))))
       = 1"
proof -
  have s: "EvGetOperationDetail ''op-1'' (Inr \<lparr>odStatus = SUCCESSFUL, odMessage = None\<rparr>)
      \<in> set (newEvents w0 (snd (Create nameserverFailEnv request w0)))"
    by code_simp
  have h: "EvUpdateDomainNameservers ''test-domain.example'' [''ns1.example.net'']
       (Some ''InvalidInput: nameserver'')
      \<in> set (newEvents w0 (snd (Create nameserverFailEnv request w0)))"
    by code_simp
  from Create_nameserver_failure[OF h] s h show ?thesis by (simp add: list_all_iff)
qed


end
